theory Spec2Isabelle
  imports Complex_Main "HOL-Library.Sublist"
begin

section \<open>Errors\<close>

text \<open>
  Every exception the modelled code raises is a value of \<open>error\<close>; a function that may
  raise returns \<open>error + 'a\<close>, with \<open>Inl\<close> for the exception.
  \<open>GncPriceError\<close> is a subclass of \<open>GnucashException\<close> in the source; the two are kept
  apart here because the code raises them at different places.
\<close>

datatype qv_variant = Differs | Missing

datatype error =
    GnucashException string
  | GncPriceError string
  | ValueError string
  | KeyError string
  | CurrencyNotCreated string
  | AssertionError string int int
  | NoResultFound
  | MultipleResultsFound
  | InvalidTransactionCurrency
  | QuantityValueMismatch qv_variant
  | QuantitySignMismatch
  | ImbalancedTransaction rat

section \<open>Commodities and prices (piecash/core/commodity.py)\<close>

text \<open>
  A date is a day number; a datetime is a day and the seconds elapsed in it, ordered
  lexicographically. \<open>strptime(s, "%Y-%m-%d")\<close> gives midnight of the day.
\<close>

type_synonym date = int

record datetime =
  dt_day :: date
  dt_secs :: nat

definition midnight :: "date \<Rightarrow> datetime" where
  "midnight d = \<lparr>dt_day = d, dt_secs = 0\<rparr>"

definition dt_less :: "datetime \<Rightarrow> datetime \<Rightarrow> bool" where
  "dt_less a b = (dt_day a < dt_day b \<or> (dt_day a = dt_day b \<and> dt_secs a < dt_secs b))"

text \<open>
  A row of the \<open>prices\<close> table. Objects are referred to by their guid (the primary key of
  \<open>DeclarativeBaseGuid\<close>): the relations \<open>commodity\<close> and \<open>currency\<close> are the two foreign
  keys. The value is an exact decimal, kept as a rational.
\<close>

record price =
  commodity_guid :: string
  currency_guid :: string
  p_date :: datetime
  p_value :: rat
  p_type :: string
  p_source :: string

text \<open>\<open>Price.__init__\<close>, with its defaults \<open>type="unknown"\<close> and \<open>source="user:price"\<close>.\<close>

definition Price :: "string \<Rightarrow> string \<Rightarrow> datetime \<Rightarrow> rat \<Rightarrow> string \<Rightarrow> string \<Rightarrow> price" where
  "Price cdty cur d v t s =
     \<lparr>commodity_guid = cdty, currency_guid = cur, p_date = d, p_value = v,
      p_type = t, p_source = s\<rparr>"

text \<open>
  A row of the \<open>commodities\<close> table, with the relation \<open>prices\<close> (the Price rows whose
  \<open>commodity_guid\<close> is this commodity) and the key/value slots read by \<open>self.get\<close>.
\<close>

record commodity =
  guid :: string
  namespace :: string
  mnemonic :: string
  fullname :: string
  fraction :: int
  cusip :: string
  quote_flag :: int
  quote_source :: string
  quote_tz :: "string option"
  slots :: "(string \<times> string) list"
  prices :: "price list"

text \<open>
  Modelled from the spec: the Book class (piecash/core/book.py) is not among the sources.
  The spec gives a book a default currency and a unique lookup of commodities by
  namespace and mnemonic; \<open>book.currencies(mnemonic=m)\<close> is the lookup among the stored
  commodities of namespace CURRENCY. \<open>create_book\<close> of session.py calls it on a book
  that has no commodity yet, to have its default currency: a currency the book lacks is
  created. The factory that creates it is not among the sources either and is the field
  \<open>new_currency\<close>: it gives the currency, which is of namespace CURRENCY and has the
  mnemonic asked for, or the message of the exception it raises. The created currency
  is a new object of the session, not yet a stored row.
\<close>

record book =
  default_currency :: commodity
  book_commodities :: "commodity list"
  use_trading_accounts :: bool
  new_currency :: "string \<Rightarrow> string + commodity"

definition find_currency :: "book \<Rightarrow> string \<Rightarrow> commodity option" where
  "find_currency b m =
     (case filter (\<lambda>c. namespace c = ''CURRENCY'' \<and> mnemonic c = m) (book_commodities b) of
        [] \<Rightarrow> None
      | c # _ \<Rightarrow> Some c)"

definition currencies :: "book \<Rightarrow> string \<Rightarrow> error + commodity" where
  "currencies b m =
     (case find_currency b m of
        Some c \<Rightarrow> Inr c
      | None \<Rightarrow>
          (case new_currency b m of
             Inl msg \<Rightarrow> Inl (CurrencyNotCreated msg)
           | Inr c \<Rightarrow> Inr (c\<lparr>namespace := ''CURRENCY'', mnemonic := m\<rparr>)))"

text \<open>
  The objects a session holds as new until it is flushed: the Price objects that
  \<open>update_prices\<close> creates, and a currency created by the lookup.
\<close>

datatype pending = PriceObj price | CommodityObj commodity

definition currencies_created :: "book \<Rightarrow> string \<Rightarrow> pending list" where
  "currencies_created b m =
     (case find_currency b m of
        Some c \<Rightarrow> []
      | None \<Rightarrow>
          (case new_currency b m of
             Inl msg \<Rightarrow> []
           | Inr c \<Rightarrow> [CommodityObj (c\<lparr>namespace := ''CURRENCY'', mnemonic := m\<rparr>)]))"

text \<open>
  \<open>default_currency == self\<close> compares two mapped objects, which is identity of the row:
  equality of the guids.
\<close>

definition same_object :: "commodity \<Rightarrow> commodity \<Rightarrow> bool" where
  "same_object a b = (guid a = guid b)"

text \<open>
  The property \<open>Commodity.base_currency\<close>. \<open>self.book\<close> is the first argument (None when
  the commodity is not linked to a session); \<open>self.get("quoted_currency", None)\<close> reads
  the slot, and \<open>if mnemonic:\<close> is false for None and for the empty string. The
  definition is the value of the property; when the lookup of the slot's currency
  creates it, the session has it as a new object (\<open>currencies_created\<close>).
\<close>

definition apostrophe :: string where
  "apostrophe = [CHR 0x27]"

definition no_base_currency_msg :: "string \<Rightarrow> string" where
  "no_base_currency_msg m =
     ''The commodity '' @ apostrophe @ m @ apostrophe
       @ '' has no information about its base currency. ''
       @ ''Add a kvp item named '' @ apostrophe @ ''quoted_currency'' @ apostrophe
       @ '' with the mnemonic of the ''
       @ ''currency to have proper behavior''"

definition base_currency :: "book option \<Rightarrow> commodity \<Rightarrow> error + commodity" where
  "base_currency bk self =
     (case bk of
        None \<Rightarrow> Inl (GnucashException
          (''The commodity should be linked to a session to have a '' @ apostrophe
             @ ''base_currency'' @ apostrophe))
      | Some b \<Rightarrow>
          if namespace self = ''CURRENCY'' then Inr (default_currency b)
          else (case map_of (slots self) ''quoted_currency'' of
                  None \<Rightarrow> Inl (GnucashException (no_base_currency_msg (mnemonic self)))
                | Some m \<Rightarrow>
                    if m \<noteq> [] then currencies b m
                    else Inl (GnucashException (no_base_currency_msg (mnemonic self)))))"

text \<open>
  The market-data providers are outside the repository (\<open>quandl_fx\<close> of
  \<open>_commodity_helper\<close>, and the \<open>yahoo_finance\<close> package): they are parameters. A quote
  is a day and a rate or closing price; \<open>share_currency s\<close> is
  \<open>yahoo_finance.Share(s).data_set["Currency"]\<close>, and \<open>get_historical s d e\<close> is
  \<open>Share(s).get_historical(d, e)\<close>.
\<close>

record quote =
  q_date :: date
  q_value :: rat

record providers =
  quandl_fx :: "string \<Rightarrow> string \<Rightarrow> date \<Rightarrow> quote list"
  share_currency :: "string \<Rightarrow> string"
  get_historical :: "string \<Rightarrow> date \<Rightarrow> date \<Rightarrow> quote list"

text \<open>
  \<open>self.prices.order_by(-Price.date).limit(1).first()\<close>: the stored price with the
  greatest date, None when the commodity has no price.
\<close>

fun latest :: "price \<Rightarrow> price list \<Rightarrow> price" where
  "latest best [] = best"
| "latest best (p # ps) = latest (if dt_less (p_date best) (p_date p) then p else best) ps"

definition last_price :: "price list \<Rightarrow> price option" where
  "last_price ps = (case ps of [] \<Rightarrow> None | p # ps' \<Rightarrow> Some (latest p ps'))"

text \<open>
  \<open>Commodity.update_prices\<close>. The clock (\<open>datetime.date.today()\<close>) is the argument
  \<open>today\<close>. The relation \<open>prices\<close> is declared \<open>lazy="dynamic"\<close>: \<open>self.prices\<close> is a
  query on the stored rows, the field \<open>prices\<close> of the commodity, and the session does
  not flush before it. The Price objects created are new objects of the session until a
  flush stores them: the last argument is the list of the new objects of the session,
  and the result is the outcome with that list as the call leaves it.
\<close>

definition update_prices ::
  "providers \<Rightarrow> date \<Rightarrow> book option \<Rightarrow> commodity \<Rightarrow> date option \<Rightarrow> pending list \<Rightarrow>
     (error + unit) \<times> pending list"
where
  "update_prices ext today bk self start_date session_new =
     (case bk of
        None \<Rightarrow>
          (Inl (GncPriceError ''Cannot update price for a commodity not attached to a book''),
           session_new)
      | Some b \<Rightarrow>
          let lp = last_price (prices self);
              start_date1 = (case start_date of None \<Rightarrow> today + (- 7) | Some d \<Rightarrow> d);
              start_date2 = (case lp of
                               None \<Rightarrow> start_date1
                             | Some l \<Rightarrow> max (dt_day (p_date l) + 1) start_date1)
          in if namespace self = ''CURRENCY'' then
               (case base_currency bk self of
                  Inl e \<Rightarrow> (Inl e, session_new)
                | Inr dc \<Rightarrow>
                    if same_object dc self then
                      (Inl (GncPriceError ''Cannot update exchange rate for base currency''),
                       session_new)
                    else
                      (Inr (),
                       session_new @
                         map (\<lambda>q. PriceObj (Price (guid self) (guid dc) (midnight (q_date q))
                                    (q_value q) ''unknown'' ''user:price''))
                             (quandl_fx ext (mnemonic self) (mnemonic dc) start_date2)))
             else
               (case currencies b (share_currency ext (mnemonic self)) of
                  Inl e \<Rightarrow> (Inl e, session_new)
                | Inr cur \<Rightarrow>
                    (Inr (),
                     session_new @ currencies_created b (share_currency ext (mnemonic self)) @
                       map (\<lambda>q. PriceObj (Price (guid self) (guid cur) (midnight (q_date q))
                                  (q_value q) ''last'' ''user:price''))
                           (get_historical ext (mnemonic self) start_date2 today))))"

text \<open>
  Modelled from the spec: the flush of a save (section 4.6, Committed: the batch is
  handed to the store, and nothing is staged any more). The new Price objects of a
  commodity become rows of its relation \<open>prices\<close>.
\<close>

fun prices_of :: "string \<Rightarrow> pending list \<Rightarrow> price list" where
  "prices_of g [] = []"
| "prices_of g (PriceObj p # xs) =
     (if commodity_guid p = g then p # prices_of g xs else prices_of g xs)"
| "prices_of g (CommodityObj c # xs) = prices_of g xs"

definition save_prices :: "commodity \<Rightarrow> pending list \<Rightarrow> commodity" where
  "save_prices self session_new = self\<lparr>prices := prices self @ prices_of (guid self) session_new\<rparr>"

section \<open>Sessions and books (piecash/core/session.py)\<close>

text \<open>The table of the schema versions this code supports, as the source writes it.\<close>

definition version_supported :: "(string \<times> int) list" where
  "version_supported =
     [(''Gnucash-Resave'', 19920), (''invoices'', 3), (''books'', 1), (''accounts'', 1),
      (''slots'', 3), (''taxtables'', 2), (''lots'', 2), (''orders'', 1), (''vendors'', 1),
      (''customers'', 2), (''jobs'', 1), (''transactions'', 3), (''Gnucash'', 2060400),
      (''budget_amounts'', 1), (''billterms'', 2), (''recurrences'', 2), (''entries'', 3),
      (''prices'', 2), (''schedxactions'', 1), (''splits'', 4), (''taxtable_entries'', 3),
      (''employees'', 2), (''commodities'', 1), (''budgets'', 1)]"

text \<open>
  What \<open>open_book\<close> reads of a database: the engine's name, the rows of \<open>gnclock\<close>
  (hostname and pid), the rows of \<open>versions\<close> (table name and version) and the rows of
  \<open>books\<close>. The first argument of \<open>open_book\<close> maps a connection string to the
  database behind it, None when \<open>database_exists\<close> is false.
\<close>

record database =
  engine_name :: string
  gnclock_rows :: "(string \<times> int) list"
  version_rows :: "(string \<times> int) list"
  book_rows :: "book list"

text \<open>
  The SQLAlchemy session, as far as this code uses it: the three collections of staged
  objects, the book bound to it by \<open>adapt_session\<close>, the function bound to its
  attribute \<open>commit\<close> (the session's own, or \<open>readonly_commit\<close>) and the flag
  \<open>_is_modified\<close>.
\<close>

datatype commit_impl = Session_commit | readonly_commit

record 'o session =
  dirty :: "'o list"
  new :: "'o list"
  deleted :: "'o list"
  session_book :: "book option"
  commit :: commit_impl
  is_modified :: bool

text \<open>\<open>Session(bind=engine)\<close>: a session with nothing staged.\<close>

definition Session :: "'o session" where
  "Session = \<lparr>dirty = [], new = [], deleted = [], session_book = None,
              commit = Session_commit, is_modified = False\<rparr>"

text \<open>\<open>session.add(o)\<close> of SQLAlchemy stages a new object; it does not look at \<open>commit\<close>.\<close>

definition session_add :: "'o \<Rightarrow> 'o session \<Rightarrow> 'o session" where
  "session_add x s = s\<lparr>new := new s @ [x]\<rparr>"

text \<open>
  \<open>adapt_session\<close>: links the book, replaces \<open>commit\<close> by \<open>readonly_commit\<close> when
  \<open>readonly\<close> holds, and clears \<open>_is_modified\<close>. The closures \<open>create_lock\<close> and
  \<open>delete_lock\<close> it attaches are called nowhere in these sources and are left out, as
  are the listeners that keep \<open>_is_modified\<close> up to date after a flush.
\<close>

definition adapt_session :: "'o session \<Rightarrow> book \<Rightarrow> bool \<Rightarrow> 'o session" where
  "adapt_session s b readonly =
     s\<lparr>session_book := Some b,
       commit := (if readonly then readonly_commit else commit s),
       is_modified := False\<rparr>"

text \<open>
  The dict comprehension \<open>{v.table_name: v.table_version for v in ...}\<close>: a later row
  with the same key replaces the value and keeps the place of the first.
\<close>

fun dict_set :: "'k \<Rightarrow> 'v \<Rightarrow> ('k \<times> 'v) list \<Rightarrow> ('k \<times> 'v) list" where
  "dict_set k v [] = [(k, v)]"
| "dict_set k v ((k', v') # d) = (if k = k' then (k, v) # d else (k', v') # dict_set k v d)"

definition version_book :: "(string \<times> int) list \<Rightarrow> (string \<times> int) list" where
  "version_book rows = fold (\<lambda>(k, v) d. dict_set k v d) rows []"

text \<open>
  The loop over \<open>version_book.items()\<close>. The source writes \<open>k in ("Gnucash")\<close>: the
  parentheses make no tuple, so this is the substring test on the string \<open>"Gnucash"\<close>.
  \<open>version_supported[k]\<close> raises KeyError for a name the table does not have, and the
  \<open>assert\<close> raises AssertionError (the name, the version found, the version supported).
\<close>

fun check_versions :: "(string \<times> int) list \<Rightarrow> error + unit" where
  "check_versions [] = Inr ()"
| "check_versions ((k, v) # kvs) =
     (if sublist k ''Gnucash'' then check_versions kvs
      else (case map_of version_supported k of
              None \<Rightarrow> Inl (KeyError k)
            | Some sv \<Rightarrow> if sv = v then check_versions kvs else Inl (AssertionError k v sv)))"

text \<open>\<open>s.query(Book).one()\<close>: exactly one row, or an exception.\<close>

definition query_one :: "'a list \<Rightarrow> error + 'a" where
  "query_one rows = (case rows of [] \<Rightarrow> Inl NoResultFound | [x] \<Rightarrow> Inr x | _ \<Rightarrow> Inl MultipleResultsFound)"

text \<open>
  \<open>open_book\<close>. \<open>stamp\<close> is the clock formatted by \<open>{:%Y%m%d%H%M%S}\<close>. The result is
  the outcome, and the path of the backup copy when \<open>shutil.copyfile\<close> was reached (the
  copy is made before the locks are read). The outcome of a successful call is the
  session bound to the book that the source returns (the book carries it as
  \<open>book.session\<close>).
\<close>

definition open_book ::
  "(string \<Rightarrow> database option) \<Rightarrow> string \<Rightarrow> string option \<Rightarrow> string option \<Rightarrow> bool \<Rightarrow> bool \<Rightarrow>
     bool \<Rightarrow> bool \<Rightarrow> (error + 'o session) \<times> string option"
where
  "open_book world stamp sqlite_file uri_conn acquire_lock readonly open_if_lock do_backup =
     (case (case uri_conn of
              Some u \<Rightarrow> Inr u
            | None \<Rightarrow> (case sqlite_file of
                         None \<Rightarrow> Inl (ValueError ''One sqlite_file and uri_conn arguments should be given.'')
                       | Some f \<Rightarrow>
                           if f \<noteq> [] then Inr (''sqlite:///'' @ f)
                           else Inl (ValueError ''One sqlite_file and uri_conn arguments should be given.''))) of
        Inl e \<Rightarrow> (Inl e, None)
      | Inr uri \<Rightarrow>
          (case world uri of
             None \<Rightarrow> (Inl (GnucashException
               (''Database '' @ apostrophe @ uri @ apostrophe
                  @ '' does not exist (please use create_book to create ''
                  @ ''GnuCash books from scratch)'')), None)
           | Some db \<Rightarrow>
               (case (if \<not> readonly \<and> do_backup then
                        (if engine_name db \<noteq> ''sqlite'' then
                           Inl (GnucashException
                             (''Cannot do a backup for engine '' @ apostrophe @ engine_name db
                                @ apostrophe
                                @ ''. Do yourself a backup and then specify do_backup=False''))
                         else if \<not> prefix ''sqlite:///'' uri then
                           Inl (GnucashException
                             (''Cannot create a backup for URI '' @ apostrophe @ uri @ apostrophe))
                         else Inr (Some (drop (length ''sqlite:///'') uri @ ''.'' @ stamp
                                           @ ''.gnucash'')))
                      else Inr None) of
                  Inl e \<Rightarrow> (Inl e, None)
                | Inr backup \<Rightarrow>
                    (if gnclock_rows db \<noteq> [] \<and> \<not> open_if_lock then
                       Inl (GnucashException ''Lock on the file'')
                     else
                       (case check_versions (version_book (version_rows db)) of
                          Inl e \<Rightarrow> Inl e
                        | Inr _ \<Rightarrow>
                            (case query_one (book_rows db) of
                               Inl e \<Rightarrow> Inl e
                             | Inr b \<Rightarrow> Inr (adapt_session Session b readonly))),
                     backup))))"

text \<open>
  The listener \<open>validate_book\<close>, registered on \<open>before_flush\<close>. What it calls on the
  staged objects and on the transactions is defined in files that are not among the
  sources, and is a parameter: \<open>object_to_validate o change\<close> are the transactions an
  object asks to validate, None among them; \<open>validate tx\<close> raises or returns the
  transaction as its in-place corrections leave it. \<open>txs\<close> is a Python set: a list
  without duplicates, iterated in an order of the implementation's choosing, which is
  the parameter \<open>iteration_order\<close>.
\<close>

datatype change = Dirty | New | Deleted

record ('o, 'tx, 'db) hooks =
  object_to_validate :: "'o \<Rightarrow> change \<Rightarrow> 'tx option list"
  validate_tx :: "'tx \<Rightarrow> error + 'tx"
  iteration_order :: "'tx list \<Rightarrow> 'tx list"
  persist :: "'tx list \<Rightarrow> 'o session \<Rightarrow> 'db \<Rightarrow> 'db"

definition set_add :: "'a \<Rightarrow> 'a list \<Rightarrow> 'a list" where
  "set_add x xs = (if x \<in> set xs then xs else xs @ [x])"

fun discard_None :: "'a option list \<Rightarrow> 'a list" where
  "discard_None [] = []"
| "discard_None (None # xs) = discard_None xs"
| "discard_None (Some x # xs) = x # discard_None xs"

definition staged :: "'o session \<Rightarrow> (change \<times> 'o list) list" where
  "staged s = [(Dirty, dirty s), (New, new s), (Deleted, deleted s)]"

definition txs_to_validate :: "('o, 'tx, 'db) hooks \<Rightarrow> 'o session \<Rightarrow> 'tx list" where
  "txs_to_validate h s =
     discard_None
       (fold (\<lambda>(change, l) txs.
                fold (\<lambda>x txs. fold set_add (object_to_validate h x change) txs) l txs)
             (staged s) [])"

fun validate_all :: "('tx \<Rightarrow> error + 'tx) \<Rightarrow> 'tx list \<Rightarrow> error + 'tx list" where
  "validate_all v [] = Inr []"
| "validate_all v (tx # txs) =
     (case v tx of
        Inl e \<Rightarrow> Inl e
      | Inr tx' \<Rightarrow> (case validate_all v txs of Inl e \<Rightarrow> Inl e | Inr r \<Rightarrow> Inr (tx' # r)))"

definition validate_book :: "('o, 'tx, 'db) hooks \<Rightarrow> 'o session \<Rightarrow> error + 'tx list" where
  "validate_book h s = validate_all (validate_tx h) (iteration_order h (txs_to_validate h s))"

text \<open>
  The session's own commit. SQLAlchemy flushes the staged objects and commits the
  database transaction; the flush calls the \<open>before_flush\<close> listeners before it writes
  anything, and an exception of a listener leaves the flush there: the objects stay
  staged. The write itself is the store's, the parameter \<open>persist\<close>; after it
  nothing is staged and the listener of \<open>after_commit\<close> has cleared \<open>_is_modified\<close>.
  The corrections that \<open>validate\<close> made in place to transactions validated before
  one that fails stay in memory in the source; the model keeps only what reaches the
  store.
\<close>

definition Session_commit_impl ::
  "('o, 'tx, 'db) hooks \<Rightarrow> 'o session \<Rightarrow> 'db \<Rightarrow> (error + unit) \<times> 'o session \<times> 'db" where
  "Session_commit_impl h s db =
     (case validate_book h s of
        Inl e \<Rightarrow> (Inl e, s, db)
      | Inr txs \<Rightarrow>
          (Inr (), s\<lparr>dirty := [], new := [], deleted := [], is_modified := False\<rparr>,
           persist h txs s db))"

text \<open>
  A call \<open>session.commit(...)\<close>: whatever is bound to the attribute runs.
  \<open>readonly_commit\<close> raises whatever its arguments are.
\<close>

definition session_commit ::
  "('o, 'tx, 'db) hooks \<Rightarrow> 'o session \<Rightarrow> 'db \<Rightarrow> (error + unit) \<times> 'o session \<times> 'db" where
  "session_commit h s db =
     (case commit s of
        readonly_commit \<Rightarrow> (Inl (GnucashException ''You cannot change the DB, it is locked !''), s, db)
      | Session_commit \<Rightarrow> Session_commit_impl h s db)"

section \<open>Transactions and their validation\<close>

text \<open>
  Modelled from the spec: the classes Account, Split and Transaction and the method
  \<open>Transaction.validate\<close> (piecash/core/transaction.py, piecash/core/account.py) are not
  among the sources. The definitions of this section follow sections 3 and 4.4 of the
  spec: an account has a type tag and one commodity; a split has an account, a value in
  the currency of its transaction and a quantity in the commodity of its account, which
  may be left unset; a transaction has a currency and its splits. A commodity is
  identified by its namespace and mnemonic.
\<close>

record account =
  acc_name :: string
  acc_type :: string
  acc_commodity :: commodity

record split =
  sp_account :: account
  sp_value :: rat
  sp_quantity :: "rat option"
  sp_memo :: string

record transaction =
  tx_guid :: string
  tx_currency :: commodity
  tx_description :: string
  tx_splits :: "split list"

definition same_commodity :: "commodity \<Rightarrow> commodity \<Rightarrow> bool" where
  "same_commodity a b = (namespace a = namespace b \<and> mnemonic a = mnemonic b)"

definition split_commodity :: "split \<Rightarrow> commodity" where
  "split_commodity sp = acc_commodity (sp_account sp)"

text \<open>
  Modelled from the spec: step 2 of section 4.4, for one split. In the currency of the
  transaction the quantity is the value: set when absent, rejected when different. In
  another commodity the quantity must be there, and of the sign of the value unless the
  value is zero.
\<close>

definition check_split :: "commodity \<Rightarrow> split \<Rightarrow> error + split" where
  "check_split cur sp =
     (if same_commodity (split_commodity sp) cur then
        (case sp_quantity sp of
           None \<Rightarrow> Inr (sp\<lparr>sp_quantity := Some (sp_value sp)\<rparr>)
         | Some q \<Rightarrow> if q = sp_value sp then Inr sp else Inl (QuantityValueMismatch Differs))
      else
        (case sp_quantity sp of
           None \<Rightarrow> Inl (QuantityValueMismatch Missing)
         | Some q \<Rightarrow>
             if sp_value sp = 0 \<or> sgn q = sgn (sp_value sp) then Inr sp
             else Inl QuantitySignMismatch))"

fun check_splits :: "commodity \<Rightarrow> split list \<Rightarrow> error + split list" where
  "check_splits cur [] = Inr []"
| "check_splits cur (sp # sps) =
     (case check_split cur sp of
        Inl e \<Rightarrow> Inl e
      | Inr sp' \<Rightarrow> (case check_splits cur sps of Inl e \<Rightarrow> Inl e | Inr r \<Rightarrow> Inr (sp' # r)))"

text \<open>
  Modelled from the spec: the two running totals of section 4.4, the sum of the values
  and the sum of the quantities of the splits in one commodity.
\<close>

definition value_sum :: "split list \<Rightarrow> rat" where
  "value_sum sps = sum_list (map sp_value sps)"

definition quantity_of :: "split \<Rightarrow> rat" where
  "quantity_of sp = (case sp_quantity sp of None \<Rightarrow> 0 | Some q \<Rightarrow> q)"

definition quantity_sum :: "commodity \<Rightarrow> split list \<Rightarrow> rat" where
  "quantity_sum c sps =
     sum_list (map quantity_of (filter (\<lambda>sp. same_commodity (split_commodity sp) c) sps))"

text \<open>
  Modelled from the spec: step 4 of section 4.4 and the side effect of section 4.6. For
  each commodity other than the currency of the transaction whose quantities do not sum
  to zero, one split against the trading account of the commodity takes the opposite of
  the sum. The spec names neither the account found for a commodity nor the value the
  split is given: both are parameters. The correction is made once; the balance is
  checked again after it.
\<close>

record trading =
  trading_account :: "commodity \<Rightarrow> account"
  trading_value :: "commodity \<Rightarrow> rat \<Rightarrow> rat"

fun imbalanced_commodities :: "commodity \<Rightarrow> split list \<Rightarrow> split list \<Rightarrow> commodity list" where
  "imbalanced_commodities cur all_sps [] = []"
| "imbalanced_commodities cur all_sps (sp # sps) =
     (let c = split_commodity sp; rest = imbalanced_commodities cur all_sps sps
      in if same_commodity c cur \<or> quantity_sum c all_sps = 0
            \<or> list_ex (\<lambda>c'. same_commodity c' c) rest
         then rest else c # rest)"

definition trading_splits :: "trading \<Rightarrow> commodity \<Rightarrow> split list \<Rightarrow> split list" where
  "trading_splits tr cur sps =
     map (\<lambda>c. \<lparr>sp_account = trading_account tr c,
               sp_value = trading_value tr c (- quantity_sum c sps),
               sp_quantity = Some (- quantity_sum c sps),
               sp_memo = []\<rparr>)
         (imbalanced_commodities cur sps sps)"

text \<open>
  Modelled from the spec: the steps of section 4.4 in their order, the first violated
  step raising. The result of a successful validation is the transaction with the
  quantities that were set and the splits that were created.
\<close>

definition validate :: "trading \<Rightarrow> bool \<Rightarrow> transaction \<Rightarrow> error + transaction" where
  "validate tr use_trading tx =
     (if namespace (tx_currency tx) \<noteq> ''CURRENCY'' then Inl InvalidTransactionCurrency
      else (case check_splits (tx_currency tx) (tx_splits tx) of
              Inl e \<Rightarrow> Inl e
            | Inr sps \<Rightarrow>
                if value_sum sps \<noteq> 0 then Inl (ImbalancedTransaction (value_sum sps))
                else if \<not> use_trading then Inr (tx\<lparr>tx_splits := sps\<rparr>)
                else
                  (let sps' = sps @ trading_splits tr (tx_currency tx) sps
                   in if value_sum sps' \<noteq> 0 then Inl (ImbalancedTransaction (value_sum sps'))
                      else (case imbalanced_commodities (tx_currency tx) sps' sps' of
                              [] \<Rightarrow> Inr (tx\<lparr>tx_splits := sps'\<rparr>)
                            | c # _ \<Rightarrow> Inl (ImbalancedTransaction (quantity_sum c sps'))))))"

section \<open>Predicates of the statements, and concrete inputs\<close>

text \<open>
  The day of a stored price, and the start date a caller asks for (seven days before
  today when it gives none).
\<close>

definition price_day :: "price \<Rightarrow> date" where
  "price_day p = dt_day (p_date p)"

definition requested_start :: "date \<Rightarrow> date option \<Rightarrow> date" where
  "requested_start today sd = (case sd of None \<Rightarrow> today - 7 | Some d \<Rightarrow> d)"

text \<open>
  What a caller may expect of a market-data provider: it returns no quote dated before
  the start date it is given, and no two quotes of one day.
\<close>

definition honours_start :: "providers \<Rightarrow> bool" where
  "honours_start ext =
     ((\<forall>a b d. \<forall>q \<in> set (quandl_fx ext a b d). d \<le> q_date q) \<and>
      (\<forall>s d e. \<forall>q \<in> set (get_historical ext s d e). d \<le> q_date q))"

definition distinct_days :: "providers \<Rightarrow> bool" where
  "distinct_days ext =
     ((\<forall>a b d. distinct (map q_date (quandl_fx ext a b d))) \<and>
      (\<forall>s d e. distinct (map q_date (get_historical ext s d e))))"

text \<open>
  A book in EUR with a second currency that has one stored price, a share quoted in
  USD, and a share without the slot \<open>quoted_currency\<close>.
\<close>

definition EUR :: commodity where
  "EUR = \<lparr>guid = ''c-eur'', namespace = ''CURRENCY'', mnemonic = ''EUR'', fullname = ''Euro'',
          fraction = 100, cusip = [], quote_flag = 0, quote_source = ''currency'',
          quote_tz = None, slots = [], prices = []\<rparr>"

definition USD :: commodity where
  "USD = \<lparr>guid = ''c-usd'', namespace = ''CURRENCY'', mnemonic = ''USD'', fullname = ''US Dollar'',
          fraction = 100, cusip = [], quote_flag = 1, quote_source = ''currency'',
          quote_tz = None, slots = [],
          prices = [Price ''c-usd'' ''c-eur'' \<lparr>dt_day = 10, dt_secs = 3600\<rparr> (9 / 10)
                      ''unknown'' ''user:price'']\<rparr>"

definition ACME :: commodity where
  "ACME = \<lparr>guid = ''c-acme'', namespace = ''NASDAQ'', mnemonic = ''ACME'', fullname = ''Acme Inc'',
           fraction = 10000, cusip = [], quote_flag = 1, quote_source = ''yahoo'',
           quote_tz = None, slots = [(''quoted_currency'', ''USD'')], prices = []\<rparr>"

definition ORPHAN :: commodity where
  "ORPHAN = \<lparr>guid = ''c-orphan'', namespace = ''NASDAQ'', mnemonic = ''ORPH'', fullname = ''Orphan'',
             fraction = 10000, cusip = [], quote_flag = 0, quote_source = ''yahoo'',
             quote_tz = None, slots = [], prices = []\<rparr>"

definition book_EUR :: book where
  "book_EUR = \<lparr>default_currency = EUR, book_commodities = [EUR, USD, ACME, ORPHAN],
               use_trading_accounts = False,
               new_currency = (\<lambda>m. Inr (EUR\<lparr>guid := ''c-new-'' @ m, fullname := m\<rparr>))\<rparr>"

text \<open>A provider that has one quote for each day up to day 12 (up to the end date asked).\<close>

definition daily_quotes :: providers where
  "daily_quotes =
     \<lparr>quandl_fx = (\<lambda>a b d. map (\<lambda>k. \<lparr>q_date = k, q_value = 11 / 10\<rparr>) [d..12]),
      share_currency = (\<lambda>s. ''USD''),
      get_historical = (\<lambda>s d e. map (\<lambda>k. \<lparr>q_date = k, q_value = 42\<rparr>) [d..e])\<rparr>"

text \<open>The same provider, for shares quoted in a currency that the book lacks.\<close>

definition swiss_quotes :: providers where
  "swiss_quotes = daily_quotes\<lparr>share_currency := (\<lambda>s. ''CHF'')\<rparr>"

text \<open>
  Names for two expressions of \<open>update_prices\<close>, used to state what it does: the start
  date it passes to the provider, and the Price it creates for a quote.
\<close>

definition fetch_start :: "date \<Rightarrow> price list \<Rightarrow> date option \<Rightarrow> date" where
  "fetch_start today ps sd =
     (case last_price ps of
        None \<Rightarrow> requested_start today sd
      | Some l \<Rightarrow> max (price_day l + 1) (requested_start today sd))"

definition mk_price :: "string \<Rightarrow> string \<Rightarrow> string \<Rightarrow> quote \<Rightarrow> price" where
  "mk_price g cur t q = Price g cur (midnight (q_date q)) (q_value q) t ''user:price''"

text \<open>
  A database whose row \<open>Gnucash\<close> of the table \<open>versions\<close> has another version than the
  supported one, every other row being as supported, and the world that has it under
  one connection string.
\<close>

definition db_other_gnucash :: database where
  "db_other_gnucash =
     \<lparr>engine_name = ''sqlite'', gnclock_rows = [],
      version_rows = [(''Gnucash'', 2060300), (''books'', 1), (''splits'', 4)],
      book_rows = [book_EUR]\<rparr>"

definition db_old_splits :: database where
  "db_old_splits =
     \<lparr>engine_name = ''sqlite'', gnclock_rows = [],
      version_rows = [(''Gnucash'', 2060400), (''books'', 1), (''splits'', 3)],
      book_rows = [book_EUR]\<rparr>"

definition one_file :: "database \<Rightarrow> string \<Rightarrow> database option" where
  "one_file db u = (if u = ''sqlite:///book.gnucash'' then Some db else None)"

text \<open>The rows of \<open>versions\<close> with the version of the row \<open>Gnucash\<close> replaced.\<close>

definition set_gnucash :: "int \<Rightarrow> string \<times> int \<Rightarrow> string \<times> int" where
  "set_gnucash w r = (if fst r = ''Gnucash'' then (fst r, w) else r)"

text \<open>
  Accounts in EUR and a broker account in a share, the trading accounts of a book (one
  for each commodity, its splits of value zero), and the transactions of the examples:
  100 against -10, the same with -90 added, a purchase of 15 shares for 100, and the
  same purchase with the share as the currency of the transaction.
\<close>

definition asset :: account where
  "asset = \<lparr>acc_name = ''asset'', acc_type = ''ASSET'', acc_commodity = EUR\<rparr>"

definition expenses :: account where
  "expenses = \<lparr>acc_name = ''exp'', acc_type = ''EXPENSE'', acc_commodity = EUR\<rparr>"

definition broker :: account where
  "broker = \<lparr>acc_name = ''broker'', acc_type = ''STOCK'', acc_commodity = ACME\<rparr>"

definition trading_zero :: trading where
  "trading_zero =
     \<lparr>trading_account = (\<lambda>c. \<lparr>acc_name = mnemonic c, acc_type = ''TRADING'', acc_commodity = c\<rparr>),
      trading_value = (\<lambda>c q. 0)\<rparr>"

definition tx_imbalanced :: transaction where
  "tx_imbalanced =
     \<lparr>tx_guid = ''t-1'', tx_currency = EUR, tx_description = ''wire'',
      tx_splits = [\<lparr>sp_account = asset, sp_value = 100, sp_quantity = None, sp_memo = []\<rparr>,
                   \<lparr>sp_account = expenses, sp_value = - 10, sp_quantity = None, sp_memo = []\<rparr>]\<rparr>"

definition tx_balanced :: transaction where
  "tx_balanced =
     \<lparr>tx_guid = ''t-2'', tx_currency = EUR, tx_description = ''wire'',
      tx_splits = [\<lparr>sp_account = asset, sp_value = 100, sp_quantity = None, sp_memo = []\<rparr>,
                   \<lparr>sp_account = expenses, sp_value = - 10, sp_quantity = None, sp_memo = []\<rparr>,
                   \<lparr>sp_account = expenses, sp_value = - 90, sp_quantity = None, sp_memo = []\<rparr>]\<rparr>"


definition tx_in_shares :: transaction where
  "tx_in_shares =
     \<lparr>tx_guid = ''t-4'', tx_currency = ACME, tx_description = ''buy stock'',
      tx_splits = [\<lparr>sp_account = asset, sp_value = 100, sp_quantity = Some 10, sp_memo = []\<rparr>,
                   \<lparr>sp_account = broker, sp_value = - 100, sp_quantity = Some (- 10),
                    sp_memo = []\<rparr>]\<rparr>"

text \<open>
  Sessions whose staged objects are transactions, each asking for its own validation;
  the store is the list of the transactions written to it. One session has a balanced
  new transaction and a dirty one that is not balanced, one has the unbalanced one
  deleted, and one has the balanced one only.
\<close>

definition batch_hooks :: "(transaction, transaction, transaction list) hooks" where
  "batch_hooks =
     \<lparr>object_to_validate = (\<lambda>x change. [Some x, None]),
      validate_tx = validate trading_zero False,
      iteration_order = rev,
      persist = (\<lambda>txs s db. db @ txs)\<rparr>"

definition batch_dirty :: "transaction session" where
  "batch_dirty = Session\<lparr>dirty := [tx_imbalanced], new := [tx_balanced]\<rparr>"

definition batch_deleted :: "transaction session" where
  "batch_deleted = Session\<lparr>new := [tx_balanced], deleted := [tx_imbalanced]\<rparr>"

definition batch_ok :: "transaction session" where
  "batch_ok = session_add tx_balanced Session"

section \<open>The most recent stored price\<close>

lemma latest_mem: "latest b ps \<in> set (b # ps)"
  by (induction ps arbitrary: b) auto

lemma dt_less_trans_not:
  "\<not> dt_less a b \<Longrightarrow> \<not> dt_less b c \<Longrightarrow> \<not> dt_less a c"
  by (auto simp: dt_less_def)

lemma latest_ge_best: "\<not> dt_less (p_date (latest b ps)) (p_date b)"
proof (induction ps arbitrary: b)
  case Nil
  then show ?case by (simp add: dt_less_def)
next
  case (Cons p ps)
  show ?case
  proof (cases "dt_less (p_date b) (p_date p)")
    case True
    have "\<not> dt_less (p_date (latest p ps)) (p_date p)" using Cons.IH by simp
    moreover have "\<not> dt_less (p_date p) (p_date b)" using True by (auto simp: dt_less_def)
    ultimately show ?thesis using True dt_less_trans_not by auto
  next
    case False
    then show ?thesis using Cons.IH by simp
  qed
qed

lemma latest_max: "p \<in> set (b # ps) \<Longrightarrow> \<not> dt_less (p_date (latest b ps)) (p_date p)"
proof (induction ps arbitrary: b)
  case Nil
  then show ?case by (simp add: dt_less_def)
next
  case (Cons x ps)
  let ?b' = "if dt_less (p_date b) (p_date x) then x else b"
  have step: "latest b (x # ps) = latest ?b' ps" by simp
  consider "p = b" | "p = x" | "p \<in> set ps" using Cons.prems by auto
  then show ?case
  proof cases
    case 1
    have "\<not> dt_less (p_date (latest ?b' ps)) (p_date ?b')" by (rule latest_ge_best)
    moreover have "\<not> dt_less (p_date ?b') (p_date b)" by (auto simp: dt_less_def)
    ultimately show ?thesis unfolding step 1 using dt_less_trans_not by blast
  next
    case 2
    have "\<not> dt_less (p_date (latest ?b' ps)) (p_date ?b')" by (rule latest_ge_best)
    moreover have "\<not> dt_less (p_date ?b') (p_date x)" by (auto simp: dt_less_def)
    ultimately show ?thesis unfolding step 2 using dt_less_trans_not by blast
  next
    case 3
    then have "p \<in> set (?b' # ps)" by simp
    then show ?thesis unfolding step by (rule Cons.IH)
  qed
qed

lemma last_price_Some_mem: "last_price ps = Some l \<Longrightarrow> l \<in> set ps"
  using latest_mem by (auto simp: last_price_def split: list.splits)

lemma last_price_day_max:
  "last_price ps = Some l \<Longrightarrow> p \<in> set ps \<Longrightarrow> dt_day (p_date p) \<le> dt_day (p_date l)"
proof -
  assume a: "last_price ps = Some l" and m: "p \<in> set ps"
  then obtain b ps' where ps: "ps = b # ps'" and l: "l = latest b ps'"
    by (auto simp: last_price_def split: list.splits)
  have "\<not> dt_less (p_date l) (p_date p)" using latest_max m ps l by blast
  then show ?thesis by (auto simp: dt_less_def)
qed

lemma last_price_None: "last_price ps = None \<longleftrightarrow> ps = []"
  by (auto simp: last_price_def split: list.splits)

section \<open>The base currency of a commodity\<close>

lemma find_currency_Some:
  "find_currency b m = Some c \<Longrightarrow> namespace c = ''CURRENCY'' \<and> mnemonic c = m"
proof -
  assume a: "find_currency b m = Some c"
  let ?f = "filter (\<lambda>c. namespace c = ''CURRENCY'' \<and> mnemonic c = m) (book_commodities b)"
  from a obtain rest where "?f = c # rest"
    by (auto simp: find_currency_def split: list.splits)
  then have "c \<in> set ?f" by simp
  then show ?thesis by simp
qed

lemma currencies_Inr:
  "currencies b m = Inr c \<Longrightarrow> namespace c = ''CURRENCY'' \<and> mnemonic c = m"
  using find_currency_Some[of b m]
  by (auto simp: currencies_def split: option.splits sum.splits)

text \<open>
  Claim C9. \<open>base_currency\<close> raises when the commodity is not linked to a book. When
  it is linked: a commodity of namespace CURRENCY has the default currency of the book;
  another commodity has what the lookup of the book gives for the mnemonic in its slot
  \<open>quoted_currency\<close>, which when it is a commodity is of namespace CURRENCY and of that
  mnemonic; and without the slot, or with an empty one, the call raises.
\<close>

theorem base_currency_cases:
  "(\<exists>msg. base_currency None c = Inl (GnucashException msg)) \<and>
   (namespace c = ''CURRENCY'' \<longrightarrow> base_currency (Some b) c = Inr (default_currency b)) \<and>
   (namespace c \<noteq> ''CURRENCY'' \<longrightarrow> map_of (slots c) ''quoted_currency'' = Some m \<longrightarrow> m \<noteq> [] \<longrightarrow>
      base_currency (Some b) c = currencies b m \<and>
      (\<forall>r. base_currency (Some b) c = Inr r \<longrightarrow> namespace r = ''CURRENCY'' \<and> mnemonic r = m)) \<and>
   (namespace c \<noteq> ''CURRENCY'' \<longrightarrow>
      (map_of (slots c) ''quoted_currency'' = None \<or>
       map_of (slots c) ''quoted_currency'' = Some []) \<longrightarrow>
      (\<exists>msg. base_currency (Some b) c = Inl (GnucashException msg)))"
proof (intro conjI impI)
  show "\<exists>msg. base_currency None c = Inl (GnucashException msg)"
    by (simp add: base_currency_def)
next
  assume "namespace c = ''CURRENCY''"
  then show "base_currency (Some b) c = Inr (default_currency b)"
    by (simp add: base_currency_def)
next
  assume a: "namespace c \<noteq> ''CURRENCY''" "map_of (slots c) ''quoted_currency'' = Some m" "m \<noteq> []"
  then show eq: "base_currency (Some b) c = currencies b m"
    by (simp add: base_currency_def)
  show "\<forall>r. base_currency (Some b) c = Inr r \<longrightarrow> namespace r = ''CURRENCY'' \<and> mnemonic r = m"
    using eq currencies_Inr by auto
next
  assume "namespace c \<noteq> ''CURRENCY''"
    "map_of (slots c) ''quoted_currency'' = None \<or> map_of (slots c) ''quoted_currency'' = Some []"
  then show "\<exists>msg. base_currency (Some b) c = Inl (GnucashException msg)"
    by (auto simp: base_currency_def)
qed

theorem base_currency_cases_witness:
  "(\<exists>msg. base_currency None ACME = Inl (GnucashException msg)) \<and>
   base_currency (Some book_EUR) USD = Inr EUR \<and>
   base_currency (Some book_EUR) ACME = Inr USD \<and>
   (\<exists>msg. base_currency (Some book_EUR) ORPHAN = Inl (GnucashException msg))"
proof -
  have ns: "namespace USD = ''CURRENCY''" "namespace ACME \<noteq> ''CURRENCY''"
    "namespace ORPHAN \<noteq> ''CURRENCY''"
    by (simp_all add: USD_def ACME_def ORPHAN_def)
  have sl: "map_of (slots ACME) ''quoted_currency'' = Some ''USD''"
    "map_of (slots ORPHAN) ''quoted_currency'' = None" "''USD'' \<noteq> []"
    by (simp_all add: ACME_def ORPHAN_def)
  have dc: "default_currency book_EUR = EUR" by (simp add: book_EUR_def)
  have cur: "currencies book_EUR ''USD'' = Inr USD"
    by (simp add: currencies_def find_currency_def book_EUR_def EUR_def USD_def ACME_def
          ORPHAN_def)
  have 1: "\<exists>msg. base_currency None ACME = Inl (GnucashException msg)"
    using base_currency_cases[where c = ACME and b = book_EUR and m = "''USD''"] by blast
  have 2: "base_currency (Some book_EUR) USD = Inr EUR"
    using base_currency_cases[where c = USD and b = book_EUR and m = "''USD''"] ns(1) dc
    by metis
  have 3: "base_currency (Some book_EUR) ACME = Inr USD"
    using base_currency_cases[where c = ACME and b = book_EUR and m = "''USD''"] ns(2) sl(1,3) cur
    by metis
  have 4: "\<exists>msg. base_currency (Some book_EUR) ORPHAN = Inl (GnucashException msg)"
    using base_currency_cases[where c = ORPHAN and b = book_EUR and m = "''USD''"] ns(3) sl(2)
    by blast
  show ?thesis using 1 2 3 4 by blast
qed

section \<open>The errors of update_prices\<close>

lemma currencies_not_price_error: "currencies b m \<noteq> Inl (GncPriceError msg)"
  by (simp add: currencies_def split: option.splits sum.splits)

lemma update_prices_unlinked:
  "update_prices ext today None c sd pend =
     (Inl (GncPriceError ''Cannot update price for a commodity not attached to a book''), pend)"
  by (simp add: update_prices_def)

lemma update_prices_base:
  "namespace c = ''CURRENCY'' \<Longrightarrow> same_object (default_currency b) c \<Longrightarrow>
   update_prices ext today (Some b) c sd pend =
     (Inl (GncPriceError ''Cannot update exchange rate for base currency''), pend)"
  by (simp add: update_prices_def base_currency_def Let_def)

lemma update_prices_other_currency:
  "namespace c = ''CURRENCY'' \<Longrightarrow> \<not> same_object (default_currency b) c \<Longrightarrow>
   fst (update_prices ext today (Some b) c sd pend) = Inr ()"
  by (simp add: update_prices_def base_currency_def Let_def)

lemma update_prices_share:
  "namespace c \<noteq> ''CURRENCY'' \<Longrightarrow>
   fst (update_prices ext today (Some b) c sd pend) \<noteq> Inl (GncPriceError msg)"
  using currencies_not_price_error[of b "share_currency ext (mnemonic c)" msg]
  by (auto simp: update_prices_def Let_def split: sum.splits)

text \<open>
  Claim C10. \<open>update_prices\<close> raises GncPriceError in two cases and in no other: the
  commodity is attached to no book, or it is a currency and the default currency of its
  book. In both the outcome does not depend on the providers (nothing is fetched) and
  the session has no new object: no Price is created, and the stored prices of the
  commodity are not an output of the call.
\<close>

theorem update_prices_price_error:
  "((\<exists>msg. fst (update_prices ext today bk c sd pend) = Inl (GncPriceError msg)) \<longleftrightarrow>
      (bk = None \<or>
       (\<exists>b. bk = Some b \<and> namespace c = ''CURRENCY'' \<and> same_object (default_currency b) c))) \<and>
   ((bk = None \<or>
       (\<exists>b. bk = Some b \<and> namespace c = ''CURRENCY'' \<and> same_object (default_currency b) c)) \<longrightarrow>
      (\<forall>ext'. update_prices ext' today bk c sd pend = update_prices ext today bk c sd pend) \<and>
      snd (update_prices ext today bk c sd pend) = pend)"
proof (cases bk)
  case None
  then show ?thesis by (simp add: update_prices_unlinked)
next
  case (Some b)
  show ?thesis
  proof (cases "namespace c = ''CURRENCY''")
    case cur: True
    show ?thesis
    proof (cases "same_object (default_currency b) c")
      case True
      then show ?thesis using Some cur by (simp add: update_prices_base)
    next
      case False
      then show ?thesis using Some cur update_prices_other_currency[OF cur False] by simp
    qed
  next
    case False
    then show ?thesis using Some update_prices_share[OF False] by simp
  qed
qed

theorem update_prices_price_error_witness:
  "fst (update_prices daily_quotes 12 None USD None []) =
      Inl (GncPriceError ''Cannot update price for a commodity not attached to a book'') \<and>
   snd (update_prices daily_quotes 12 None USD None []) = [] \<and>
   fst (update_prices daily_quotes 12 (Some book_EUR) EUR None []) =
      Inl (GncPriceError ''Cannot update exchange rate for base currency'') \<and>
   snd (update_prices daily_quotes 12 (Some book_EUR) EUR None []) = [] \<and>
   fst (update_prices daily_quotes 12 (Some book_EUR) USD None []) = Inr ()"
proof -
  have ns: "namespace EUR = ''CURRENCY''" "namespace USD = ''CURRENCY''"
    by (simp_all add: EUR_def USD_def)
  have same: "same_object (default_currency book_EUR) EUR"
    by (simp add: same_object_def book_EUR_def)
  have other: "\<not> same_object (default_currency book_EUR) USD"
    by (simp add: same_object_def book_EUR_def EUR_def USD_def)
  have 1: "fst (update_prices daily_quotes 12 None USD None []) =
      Inl (GncPriceError ''Cannot update price for a commodity not attached to a book'')"
    by (simp add: update_prices_def)
  have 2: "snd (update_prices daily_quotes 12 None USD None []) = []"
    using update_prices_price_error[where bk = None and c = USD] by blast
  have 3: "fst (update_prices daily_quotes 12 (Some book_EUR) EUR None []) =
      Inl (GncPriceError ''Cannot update exchange rate for base currency'')"
    using ns(1) same by (simp add: update_prices_def base_currency_def Let_def)
  have 4: "snd (update_prices daily_quotes 12 (Some book_EUR) EUR None []) = []"
    using update_prices_price_error[where bk = "Some book_EUR" and c = EUR] ns(1) same by blast
  have "\<not> (\<exists>msg. fst (update_prices daily_quotes 12 (Some book_EUR) USD None []) =
          Inl (GncPriceError msg))"
    using update_prices_price_error[where bk = "Some book_EUR" and c = USD and ext = daily_quotes
        and today = 12 and sd = None and pend = "[]"] other
    by blast
  moreover have "fst (update_prices daily_quotes 12 (Some book_EUR) USD None []) = Inr ()"
    using ns(2) other by (simp add: update_prices_def base_currency_def Let_def)
  ultimately show ?thesis using 1 2 3 4 by blast
qed

section \<open>The prices that update_prices creates\<close>

lemma price_day_mk [simp]: "price_day (mk_price g cur t q) = q_date q"
  by (simp add: price_day_def mk_price_def Price_def midnight_def)

lemma commodity_guid_mk [simp]: "commodity_guid (mk_price g cur t q) = g"
  by (simp add: mk_price_def Price_def)

lemma prices_of_append: "prices_of g (xs @ ys) = prices_of g xs @ prices_of g ys"
  by (induction g xs rule: prices_of.induct) auto

lemma prices_of_created: "prices_of g (map (\<lambda>q. PriceObj (mk_price g cur t q)) qs) =
    map (mk_price g cur t) qs"
  by (induction qs) auto

lemma prices_of_currencies_created: "prices_of g (currencies_created b m) = []"
  by (simp add: currencies_created_def split: option.splits sum.splits)

lemma fetch_start_none: "fetch_start today [] sd = requested_start today sd"
  by (simp add: fetch_start_def last_price_def)

lemma fetch_start_after_stored:
  "p \<in> set ps \<Longrightarrow> price_day p < fetch_start today ps sd"
proof -
  assume m: "p \<in> set ps"
  then obtain l where l: "last_price ps = Some l"
    using last_price_None by (cases "last_price ps") auto
  have "price_day p \<le> price_day l" using last_price_day_max[OF l m] by (simp add: price_day_def)
  then show ?thesis using l by (simp add: fetch_start_def)
qed

lemma fetch_start_most_recent:
  assumes m: "l \<in> set ps" and mx: "\<forall>p \<in> set ps. \<not> dt_less (p_date l) (p_date p)"
  shows "fetch_start today ps sd = max (price_day l + 1) (requested_start today sd)"
proof -
  obtain l0 where l0: "last_price ps = Some l0"
    using m last_price_None by (cases "last_price ps") auto
  have "price_day l \<le> price_day l0"
    using last_price_day_max[OF l0 m] by (simp add: price_day_def)
  moreover have "l0 \<in> set ps" using last_price_Some_mem[OF l0] .
  then have "\<not> dt_less (p_date l) (p_date l0)" using mx by blast
  then have "price_day l0 \<le> price_day l" by (auto simp: dt_less_def price_day_def)
  ultimately have "price_day l0 = price_day l" by simp
  then show ?thesis using l0 by (simp add: fetch_start_def)
qed

lemma update_prices_currency:
  assumes "namespace self = ''CURRENCY''" and "\<not> same_object (default_currency b) self"
  shows "update_prices ext today (Some b) self sd pend =
     (Inr (), pend @ map (\<lambda>q. PriceObj (mk_price (guid self) (guid (default_currency b)) ''unknown'' q))
        (quandl_fx ext (mnemonic self) (mnemonic (default_currency b))
           (fetch_start today (prices self) sd)))"
  using assms
  by (simp add: update_prices_def base_currency_def Let_def fetch_start_def requested_start_def
        mk_price_def price_day_def split: option.splits)

lemma update_prices_share_ok:
  assumes "namespace self \<noteq> ''CURRENCY''"
    and "currencies b (share_currency ext (mnemonic self)) = Inr cur"
  shows "update_prices ext today (Some b) self sd pend =
     (Inr (), pend @ currencies_created b (share_currency ext (mnemonic self)) @
        map (\<lambda>q. PriceObj (mk_price (guid self) (guid cur) ''last'' q))
          (get_historical ext (mnemonic self) (fetch_start today (prices self) sd) today))"
  using assms
  by (simp add: update_prices_def Let_def fetch_start_def requested_start_def
        mk_price_def price_day_def split: option.splits)

lemma update_prices_shape:
  "\<exists>cs qs cur t. snd (update_prices ext today bk self sd pend) =
       pend @ cs @ map (\<lambda>q. PriceObj (mk_price (guid self) cur t q)) qs \<and>
     prices_of (guid self) cs = [] \<and>
     (qs = [] \<or> (\<exists>a b. qs = quandl_fx ext a b (fetch_start today (prices self) sd)) \<or>
       (\<exists>s. qs = get_historical ext s (fetch_start today (prices self) sd) today))"
proof -
  have nothing: "snd (update_prices ext today bk self sd pend) = pend \<Longrightarrow> ?thesis"
  proof -
    assume "snd (update_prices ext today bk self sd pend) = pend"
    then have "snd (update_prices ext today bk self sd pend) =
        pend @ [] @ map (\<lambda>q. PriceObj (mk_price (guid self) [] [] q)) [] \<and>
        prices_of (guid self) [] = [] \<and> ([] :: quote list) = []"
      by simp
    then show ?thesis by blast
  qed
  show ?thesis
  proof (cases bk)
    case None
    then show ?thesis using nothing by (simp add: update_prices_def)
  next
    case (Some b)
    show ?thesis
    proof (cases "namespace self = ''CURRENCY''")
      case True
      show ?thesis
      proof (cases "same_object (default_currency b) self")
        case t: True
        then show ?thesis using nothing Some True
          by (simp add: update_prices_def base_currency_def Let_def)
      next
        case False
        have "snd (update_prices ext today bk self sd pend) =
            pend @ [] @ map (\<lambda>q. PriceObj (mk_price (guid self) (guid (default_currency b)) ''unknown'' q))
              (quandl_fx ext (mnemonic self) (mnemonic (default_currency b))
                 (fetch_start today (prices self) sd))"
          using update_prices_currency[OF True False] Some by simp
        moreover have "prices_of (guid self) [] = []" by simp
        ultimately show ?thesis by blast
      qed
    next
      case False
      show ?thesis
      proof (cases "currencies b (share_currency ext (mnemonic self))")
        case (Inl e)
        then show ?thesis using nothing Some False by (simp add: update_prices_def Let_def)
      next
        case (Inr cur)
        have "snd (update_prices ext today bk self sd pend) =
            pend @ currencies_created b (share_currency ext (mnemonic self)) @
              map (\<lambda>q. PriceObj (mk_price (guid self) (guid cur) ''last'' q))
                (get_historical ext (mnemonic self) (fetch_start today (prices self) sd) today)"
          using update_prices_share_ok[OF False Inr] Some by simp
        then show ?thesis using prices_of_currencies_created by blast
      qed
    qed
  qed
qed

lemma update_prices_new_later:
  assumes h: "honours_start ext"
  shows "\<exists>created. prices_of (guid self) (snd (update_prices ext today bk self sd [])) = created \<and>
           (\<forall>p \<in> set created. \<forall>p' \<in> set (prices self). price_day p' < price_day p) \<and>
           (distinct_days ext \<longrightarrow> distinct (map price_day created))"
proof -
  obtain cs qs cur t where
    eq: "snd (update_prices ext today bk self sd []) =
            [] @ cs @ map (\<lambda>q. PriceObj (mk_price (guid self) cur t q)) qs"
    and cs: "prices_of (guid self) cs = []"
    and src: "qs = [] \<or> (\<exists>a b. qs = quandl_fx ext a b (fetch_start today (prices self) sd)) \<or>
       (\<exists>s. qs = get_historical ext s (fetch_start today (prices self) sd) today)"
    using update_prices_shape by blast
  let ?new = "map (mk_price (guid self) cur t) qs"
  have 1: "prices_of (guid self) (snd (update_prices ext today bk self sd [])) = ?new"
    unfolding eq by (simp add: prices_of_append cs prices_of_created)
  have ge: "\<forall>q \<in> set qs. fetch_start today (prices self) sd \<le> q_date q"
    using src h unfolding honours_start_def by auto
  have dd: "distinct_days ext \<Longrightarrow> distinct (map q_date qs)"
    using src unfolding distinct_days_def by auto
  have 2: "\<forall>p \<in> set ?new. \<forall>p' \<in> set (prices self). price_day p' < price_day p"
  proof (intro ballI)
    fix p p' assume "p \<in> set ?new" and p': "p' \<in> set (prices self)"
    then obtain q where q: "q \<in> set qs" and p: "p = mk_price (guid self) cur t q" by auto
    have "price_day p' < fetch_start today (prices self) sd"
      using fetch_start_after_stored[OF p'] .
    also have "\<dots> \<le> q_date q" using ge q by blast
    finally show "price_day p' < price_day p" using p by simp
  qed
  have 3: "distinct_days ext \<longrightarrow> distinct (map price_day ?new)"
  proof
    assume "distinct_days ext"
    then have "distinct (map q_date qs)" using dd by simp
    moreover have "map price_day ?new = map q_date qs" by (simp add: comp_def)
    ultimately show "distinct (map price_day ?new)" by (simp only:)
  qed
  show ?thesis using 1 2 3 by blast
qed

lemma save_keeps_distinct:
  assumes h: "honours_start ext" and d: "distinct_days ext"
    and dist: "distinct (map price_day (prices self))"
  shows "distinct (map price_day
           (prices (save_prices self (snd (update_prices ext today bk self sd [])))))"
proof -
  obtain created where 1: "prices_of (guid self) (snd (update_prices ext today bk self sd [])) = created"
    and 2: "\<forall>p \<in> set created. \<forall>p' \<in> set (prices self). price_day p' < price_day p"
    and 3: "distinct (map price_day created)"
    using update_prices_new_later[OF h] d by blast
  have "set (map price_day (prices self)) \<inter> set (map price_day created) = {}"
    using 2 by fastforce
  then show ?thesis using 1 3 dist by (simp add: save_prices_def)
qed

lemma guid_save_prices [simp]: "guid (save_prices self pend) = guid self"
  by (simp add: save_prices_def)


lemma currencies_created_cases:
  "length (currencies_created b m) \<le> 1 \<and>
   (\<forall>c'. find_currency b m = Some c' \<longrightarrow> currencies_created b m = []) \<and>
   (\<forall>x \<in> set (currencies_created b m). \<exists>c'. x = CommodityObj c' \<and> currencies b m = Inr c')"
  by (auto simp: currencies_created_def currencies_def split: option.splits sum.splits)

text \<open>
  Claim C7, as amended. \<open>update_prices\<close> leaves the new objects of the session as they
  are and adds the ones it creates; the stored prices are rows that only a save adds to.
  The start date it gives to the provider is the requested one when the commodity has
  no stored price, and otherwise the greater of the requested one and the day after the
  most recent stored price. For a currency other than the default one it creates one
  Price for each quote of \<open>quandl_fx\<close> from that date; for a share it creates one Price for
  each quote of \<open>get_historical\<close> from that date to today, and before them the currency
  of the quotes when the book lacks it, at most one and none when the book has it. Hence,
  with a provider that returns no quote before the start date it is given, every created
  price is dated after every stored one; and when the provider returns one quote a day at
  most, a run, a save, a second run and a save leave no two prices of the same day, if
  there were none before.
\<close>

theorem update_prices_creates_later_prices:
  "(\<exists>created. snd (update_prices ext today bk self sd pend) = pend @ created) \<and>
   prices (save_prices self pend) = prices self @ prices_of (guid self) pend \<and>
   (prices self = [] \<longrightarrow> fetch_start today (prices self) sd = requested_start today sd) \<and>
   (\<forall>l. l \<in> set (prices self) \<longrightarrow> (\<forall>p \<in> set (prices self). \<not> dt_less (p_date l) (p_date p)) \<longrightarrow>
      fetch_start today (prices self) sd = max (price_day l + 1) (requested_start today sd)) \<and>
   (namespace self = ''CURRENCY'' \<longrightarrow> \<not> same_object (default_currency b) self \<longrightarrow>
      update_prices ext today (Some b) self sd pend =
        (Inr (),
         pend @
         map (\<lambda>q. PriceObj (Price (guid self) (guid (default_currency b)) (midnight (q_date q))
                    (q_value q) ''unknown'' ''user:price''))
           (quandl_fx ext (mnemonic self) (mnemonic (default_currency b))
              (fetch_start today (prices self) sd)))) \<and>
   (namespace self \<noteq> ''CURRENCY'' \<longrightarrow>
      currencies b (share_currency ext (mnemonic self)) = Inr cur \<longrightarrow>
      update_prices ext today (Some b) self sd pend =
        (Inr (),
         pend @ currencies_created b (share_currency ext (mnemonic self)) @
         map (\<lambda>q. PriceObj (Price (guid self) (guid cur) (midnight (q_date q))
                    (q_value q) ''last'' ''user:price''))
           (get_historical ext (mnemonic self) (fetch_start today (prices self) sd) today))) \<and>
   (length (currencies_created b m) \<le> 1 \<and>
    (\<forall>c'. find_currency b m = Some c' \<longrightarrow> currencies_created b m = []) \<and>
    (\<forall>x \<in> set (currencies_created b m). \<exists>c'. x = CommodityObj c' \<and> currencies b m = Inr c')) \<and>
   (honours_start ext \<longrightarrow>
      (\<forall>p \<in> set (prices_of (guid self) (snd (update_prices ext today bk self sd []))).
         \<forall>p' \<in> set (prices self). price_day p' < price_day p)) \<and>
   (honours_start ext \<longrightarrow> distinct_days ext \<longrightarrow> distinct (map price_day (prices self)) \<longrightarrow>
      distinct (map price_day
        (prices (save_prices
           (save_prices self (snd (update_prices ext today bk self sd [])))
           (snd (update_prices ext today' bk'
                   (save_prices self (snd (update_prices ext today bk self sd []))) sd' []))))))"
proof (intro conjI allI impI)
  show "\<exists>created. snd (update_prices ext today bk self sd pend) = pend @ created"
    using update_prices_shape[of ext today bk self sd pend] by blast
next
  show "prices (save_prices self pend) = prices self @ prices_of (guid self) pend"
    by (simp add: save_prices_def)
next
  assume "prices self = []"
  then show "fetch_start today (prices self) sd = requested_start today sd"
    by (simp add: fetch_start_none)
next
  fix l
  assume "l \<in> set (prices self)" "\<forall>p \<in> set (prices self). \<not> dt_less (p_date l) (p_date p)"
  then show "fetch_start today (prices self) sd = max (price_day l + 1) (requested_start today sd)"
    by (rule fetch_start_most_recent)
next
  assume "namespace self = ''CURRENCY''" "\<not> same_object (default_currency b) self"
  then show "update_prices ext today (Some b) self sd pend =
        (Inr (),
         pend @
         map (\<lambda>q. PriceObj (Price (guid self) (guid (default_currency b)) (midnight (q_date q))
                    (q_value q) ''unknown'' ''user:price''))
           (quandl_fx ext (mnemonic self) (mnemonic (default_currency b))
              (fetch_start today (prices self) sd)))"
    using update_prices_currency[of self b ext today sd pend] by (simp add: mk_price_def)
next
  assume "namespace self \<noteq> ''CURRENCY''"
    "currencies b (share_currency ext (mnemonic self)) = Inr cur"
  then show "update_prices ext today (Some b) self sd pend =
        (Inr (),
         pend @ currencies_created b (share_currency ext (mnemonic self)) @
         map (\<lambda>q. PriceObj (Price (guid self) (guid cur) (midnight (q_date q))
                    (q_value q) ''last'' ''user:price''))
           (get_historical ext (mnemonic self) (fetch_start today (prices self) sd) today))"
    using update_prices_share_ok[of self b ext cur today sd pend] by (simp add: mk_price_def)
next
  show "length (currencies_created b m) \<le> 1" using currencies_created_cases by blast
next
  fix c' assume "find_currency b m = Some c'"
  then show "currencies_created b m = []" using currencies_created_cases by blast
next
  show "\<forall>x \<in> set (currencies_created b m). \<exists>c'. x = CommodityObj c' \<and> currencies b m = Inr c'"
    using currencies_created_cases by blast
next
  assume h: "honours_start ext"
  show "\<forall>p \<in> set (prices_of (guid self) (snd (update_prices ext today bk self sd []))).
         \<forall>p' \<in> set (prices self). price_day p' < price_day p"
    using update_prices_new_later[OF h, of self today bk sd] by blast
next
  assume h: "honours_start ext" and d: "distinct_days ext"
    and dist: "distinct (map price_day (prices self))"
  have "distinct (map price_day
           (prices (save_prices self (snd (update_prices ext today bk self sd [])))))"
    using save_keeps_distinct[OF h d dist] .
  then show "distinct (map price_day
        (prices (save_prices
           (save_prices self (snd (update_prices ext today bk self sd [])))
           (snd (update_prices ext today' bk'
                   (save_prices self (snd (update_prices ext today bk self sd []))) sd' [])))))"
    using save_keeps_distinct[OF h d] by blast
qed


lemma daily_quotes_honours_start: "honours_start daily_quotes"
  by (auto simp: honours_start_def daily_quotes_def)

lemma daily_quotes_distinct_days: "distinct_days daily_quotes"
  by (simp add: distinct_days_def daily_quotes_def comp_def)

lemma USD_facts:
  "namespace USD = ''CURRENCY''" "\<not> same_object (default_currency book_EUR) USD"
  "guid USD = ''c-usd''" "mnemonic USD = ''USD''" "guid (default_currency book_EUR) = ''c-eur''"
  "mnemonic (default_currency book_EUR) = ''EUR''"
  by (simp_all add: USD_def book_EUR_def EUR_def same_object_def)

lemma USD_fetch_start: "fetch_start 12 (prices USD) (Some 5) = 11"
  by (simp add: fetch_start_def last_price_def USD_def price_day_def Price_def
        requested_start_def)

lemma USD_run:
  "update_prices daily_quotes 12 (Some book_EUR) USD (Some 5) pend =
     (Inr (), pend @
        [PriceObj (Price ''c-usd'' ''c-eur'' (midnight 11) (11 / 10) ''unknown'' ''user:price''),
         PriceObj (Price ''c-usd'' ''c-eur'' (midnight 12) (11 / 10) ''unknown'' ''user:price'')])"
  using update_prices_currency[of USD book_EUR daily_quotes 12 "Some 5" pend] USD_facts
  by (simp add: USD_fetch_start daily_quotes_def mk_price_def)

lemma ACME_facts:
  "namespace ACME \<noteq> ''CURRENCY''" "guid ACME = ''c-acme''" "mnemonic ACME = ''ACME''"
  "prices ACME = []"
  by (simp_all add: ACME_def)

lemma find_USD: "find_currency book_EUR ''USD'' = Some USD"
  by (simp add: find_currency_def book_EUR_def EUR_def USD_def ACME_def ORPHAN_def)

lemma find_CHF: "find_currency book_EUR ''CHF'' = None"
  by (simp add: find_currency_def book_EUR_def EUR_def USD_def ACME_def ORPHAN_def)

lemma ACME_run:
  "update_prices daily_quotes 12 (Some book_EUR) ACME (Some 11) [] =
     (Inr (),
      [PriceObj (Price ''c-acme'' ''c-usd'' (midnight 11) 42 ''last'' ''user:price''),
       PriceObj (Price ''c-acme'' ''c-usd'' (midnight 12) 42 ''last'' ''user:price'')])"
proof -
  have sc: "share_currency daily_quotes (mnemonic ACME) = ''USD''"
    by (simp add: daily_quotes_def)
  have cur: "currencies book_EUR (share_currency daily_quotes (mnemonic ACME)) = Inr USD"
    by (simp add: sc currencies_def find_USD)
  have none: "currencies_created book_EUR ''USD'' = []"
    by (simp add: currencies_created_def find_USD)
  have fs: "fetch_start 12 [] (Some 11) = 11"
    by (simp add: fetch_start_none requested_start_def)
  show ?thesis
    using update_prices_share_ok[OF ACME_facts(1) cur, of 12 "Some 11" "[]"]
    by (simp add: sc none fs ACME_facts USD_facts daily_quotes_def mk_price_def)
qed

lemma ACME_run_swiss:
  "update_prices swiss_quotes 12 (Some book_EUR) ACME (Some 12) [] =
     (Inr (),
      [CommodityObj (EUR\<lparr>guid := ''c-new-CHF'', fullname := ''CHF'', namespace := ''CURRENCY'',
                       mnemonic := ''CHF''\<rparr>),
       PriceObj (Price ''c-acme'' ''c-new-CHF'' (midnight 12) 42 ''last'' ''user:price'')])"
proof -
  have sc: "share_currency swiss_quotes (mnemonic ACME) = ''CHF''"
    by (simp add: swiss_quotes_def)
  have nc: "new_currency book_EUR ''CHF'' = Inr (EUR\<lparr>guid := ''c-new-CHF'', fullname := ''CHF''\<rparr>)"
    by (simp add: book_EUR_def)
  have cur: "currencies book_EUR (share_currency swiss_quotes (mnemonic ACME)) =
      Inr (EUR\<lparr>guid := ''c-new-CHF'', fullname := ''CHF'', namespace := ''CURRENCY'',
                mnemonic := ''CHF''\<rparr>)"
    by (simp add: sc currencies_def find_CHF nc)
  have cr: "currencies_created book_EUR ''CHF'' =
      [CommodityObj (EUR\<lparr>guid := ''c-new-CHF'', fullname := ''CHF'', namespace := ''CURRENCY'',
                       mnemonic := ''CHF''\<rparr>)]"
    by (simp add: currencies_created_def find_CHF nc)
  have fs: "fetch_start 12 [] (Some 12) = 12"
    by (simp add: fetch_start_none requested_start_def)
  have sc': "share_currency swiss_quotes ''ACME'' = ''CHF''"
    by (simp add: swiss_quotes_def)
  have gh: "get_historical swiss_quotes ''ACME'' 12 12 = [\<lparr>q_date = 12, q_value = 42\<rparr>]"
    by (simp add: swiss_quotes_def daily_quotes_def)
  show ?thesis
    using update_prices_share_ok[OF ACME_facts(1) cur, of 12 "Some 12" "[]"]
    by (simp add: sc' cr fs gh ACME_facts mk_price_def)
qed

lemma USD_saved_days:
  "map price_day (prices (save_prices USD
      [PriceObj (Price ''c-usd'' ''c-eur'' (midnight 11) (11 / 10) ''unknown'' ''user:price''),
       PriceObj (Price ''c-usd'' ''c-eur'' (midnight 12) (11 / 10) ''unknown'' ''user:price'')])) =
   [10, 11, 12]"
  by (simp add: save_prices_def USD_def price_day_def Price_def midnight_def)


lemma USD_rerun_after_save:
  "update_prices daily_quotes 12 (Some book_EUR)
     (save_prices USD
        [PriceObj (Price ''c-usd'' ''c-eur'' (midnight 11) (11 / 10) ''unknown'' ''user:price''),
         PriceObj (Price ''c-usd'' ''c-eur'' (midnight 12) (11 / 10) ''unknown'' ''user:price'')])
     (Some 5) [] = (Inr (), [])"
proof -
  let ?c = "save_prices USD
        [PriceObj (Price ''c-usd'' ''c-eur'' (midnight 11) (11 / 10) ''unknown'' ''user:price''),
         PriceObj (Price ''c-usd'' ''c-eur'' (midnight 12) (11 / 10) ''unknown'' ''user:price'')]"
  have ns: "namespace ?c = ''CURRENCY''" by (simp add: save_prices_def USD_def)
  have other: "\<not> same_object (default_currency book_EUR) ?c"
    by (simp add: same_object_def save_prices_def USD_def book_EUR_def EUR_def)
  have fs: "fetch_start 12 (prices ?c) (Some 5) = 13"
    by (simp add: fetch_start_def last_price_def save_prices_def USD_def price_day_def Price_def
          midnight_def dt_less_def requested_start_def)
  have q: "quandl_fx daily_quotes a b 13 = []" for a b
    by (simp add: daily_quotes_def)
  show ?thesis
    using update_prices_currency[OF ns other, of daily_quotes 12 "Some 5" "[]"]
    by (simp add: fs q)
qed

text \<open>
  Claim C7 as stated fails twice. A second run before the prices of the first are saved
  does not see them and creates prices of the same days again, so that the save stores
  two prices of day 11 and of day 12. And a run for a share whose quotes are in a
  currency the book lacks creates that currency beside the price.
\<close>

theorem update_prices_rerun_counterexample:
  "honours_start daily_quotes \<and> distinct_days daily_quotes \<and>
   distinct (map price_day (prices USD)) \<and>
   map price_day (prices (save_prices USD
     (snd (update_prices daily_quotes 12 (Some book_EUR) USD (Some 5)
        (snd (update_prices daily_quotes 12 (Some book_EUR) USD (Some 5) [])))))) =
     [10, 11, 12, 11, 12] \<and>
   snd (update_prices swiss_quotes 12 (Some book_EUR) ACME (Some 12) []) =
     [CommodityObj (EUR\<lparr>guid := ''c-new-CHF'', fullname := ''CHF'', namespace := ''CURRENCY'',
                      mnemonic := ''CHF''\<rparr>),
      PriceObj (Price ''c-acme'' ''c-new-CHF'' (midnight 12) 42 ''last'' ''user:price'')]"
proof -
  have u: "distinct (map price_day (prices USD))"
    by (simp add: USD_def price_day_def Price_def)
  have days: "map price_day (prices (save_prices USD
     (snd (update_prices daily_quotes 12 (Some book_EUR) USD (Some 5)
        (snd (update_prices daily_quotes 12 (Some book_EUR) USD (Some 5) [])))))) =
     [10, 11, 12, 11, 12]"
    unfolding USD_run snd_conv
    by (simp add: save_prices_def USD_def price_day_def Price_def midnight_def)
  show ?thesis
    using daily_quotes_honours_start daily_quotes_distinct_days u days ACME_run_swiss by simp
qed

theorem update_prices_creates_later_prices_witness:
  "honours_start daily_quotes \<and> distinct_days daily_quotes \<and>
   distinct (map price_day (prices USD)) \<and>
   update_prices daily_quotes 12 (Some book_EUR) USD (Some 5) [] =
     (Inr (),
      [PriceObj (Price ''c-usd'' ''c-eur'' (midnight 11) (11 / 10) ''unknown'' ''user:price''),
       PriceObj (Price ''c-usd'' ''c-eur'' (midnight 12) (11 / 10) ''unknown'' ''user:price'')]) \<and>
   update_prices daily_quotes 12 (Some book_EUR) ACME (Some 11) [] =
     (Inr (),
      [PriceObj (Price ''c-acme'' ''c-usd'' (midnight 11) 42 ''last'' ''user:price''),
       PriceObj (Price ''c-acme'' ''c-usd'' (midnight 12) 42 ''last'' ''user:price'')]) \<and>
   map price_day (prices (save_prices USD
     (snd (update_prices daily_quotes 12 (Some book_EUR) USD (Some 5) [])))) = [10, 11, 12] \<and>
   snd (update_prices daily_quotes 12 (Some book_EUR)
          (save_prices USD (snd (update_prices daily_quotes 12 (Some book_EUR) USD (Some 5) [])))
          (Some 5) []) = [] \<and>
   distinct (map price_day
     (prices (save_prices
        (save_prices USD (snd (update_prices daily_quotes 12 (Some book_EUR) USD (Some 5) [])))
        (snd (update_prices daily_quotes 12 (Some book_EUR)
                (save_prices USD
                   (snd (update_prices daily_quotes 12 (Some book_EUR) USD (Some 5) [])))
                (Some 5) [])))))"
proof -
  have h: "honours_start daily_quotes" by (rule daily_quotes_honours_start)
  have d: "distinct_days daily_quotes" by (rule daily_quotes_distinct_days)
  have u: "distinct (map price_day (prices USD))"
    by (simp add: USD_def price_day_def Price_def)
  have sc: "share_currency daily_quotes (mnemonic ACME) = ''USD''"
    by (simp add: daily_quotes_def)
  have cur: "currencies book_EUR (share_currency daily_quotes (mnemonic ACME)) = Inr USD"
    by (simp add: sc currencies_def find_USD)
  note at_USD = update_prices_creates_later_prices[where ext = daily_quotes and today = 12
      and today' = 12 and bk = "Some book_EUR" and bk' = "Some book_EUR" and b = book_EUR
      and self = USD and sd = "Some 5" and sd' = "Some 5" and pend = "[]"]
  note at_ACME = update_prices_creates_later_prices[where ext = daily_quotes and today = 12
      and b = book_EUR and self = ACME and sd = "Some 11" and pend = "[]" and cur = USD]
  have 1: "update_prices daily_quotes 12 (Some book_EUR) USD (Some 5) [] =
        (Inr (),
         [] @
         map (\<lambda>q. PriceObj (Price (guid USD) (guid (default_currency book_EUR))
                    (midnight (q_date q)) (q_value q) ''unknown'' ''user:price''))
           (quandl_fx daily_quotes (mnemonic USD) (mnemonic (default_currency book_EUR))
              (fetch_start 12 (prices USD) (Some 5))))"
    using at_USD USD_facts(1,2) by blast
  have 2: "update_prices daily_quotes 12 (Some book_EUR) ACME (Some 11) [] =
        (Inr (),
         [] @ currencies_created book_EUR (share_currency daily_quotes (mnemonic ACME)) @
         map (\<lambda>q. PriceObj (Price (guid ACME) (guid USD) (midnight (q_date q))
                    (q_value q) ''last'' ''user:price''))
           (get_historical daily_quotes (mnemonic ACME) (fetch_start 12 (prices ACME) (Some 11))
              12))"
    using at_ACME ACME_facts(1) cur by blast
  have 3: "distinct (map price_day
     (prices (save_prices
        (save_prices USD (snd (update_prices daily_quotes 12 (Some book_EUR) USD (Some 5) [])))
        (snd (update_prices daily_quotes 12 (Some book_EUR)
                (save_prices USD
                   (snd (update_prices daily_quotes 12 (Some book_EUR) USD (Some 5) [])))
                (Some 5) [])))))"
    using at_USD h d u by blast
  have r1: "update_prices daily_quotes 12 (Some book_EUR) USD (Some 5) [] =
     (Inr (),
      [PriceObj (Price ''c-usd'' ''c-eur'' (midnight 11) (11 / 10) ''unknown'' ''user:price''),
       PriceObj (Price ''c-usd'' ''c-eur'' (midnight 12) (11 / 10) ''unknown'' ''user:price'')])"
    using 1 by (simp add: USD_facts USD_fetch_start daily_quotes_def)
  have r2: "update_prices daily_quotes 12 (Some book_EUR) ACME (Some 11) [] =
     (Inr (),
      [PriceObj (Price ''c-acme'' ''c-usd'' (midnight 11) 42 ''last'' ''user:price''),
       PriceObj (Price ''c-acme'' ''c-usd'' (midnight 12) 42 ''last'' ''user:price'')])"
    using 2 ACME_run by simp
  have 4: "map price_day (prices (save_prices USD
     (snd (update_prices daily_quotes 12 (Some book_EUR) USD (Some 5) [])))) = [10, 11, 12]"
    using r1 USD_saved_days by simp
  have 5: "snd (update_prices daily_quotes 12 (Some book_EUR)
          (save_prices USD (snd (update_prices daily_quotes 12 (Some book_EUR) USD (Some 5) [])))
          (Some 5) []) = []"
    using r1 USD_rerun_after_save by simp
  show ?thesis using h d u r1 r2 3 4 5 by (intro conjI)
qed

section \<open>The version check of open_book\<close>

lemma dict_set_fresh: "k \<notin> fst ` set d \<Longrightarrow> dict_set k v d = d @ [(k, v)]"
  by (induction d) auto

lemma fold_dict_set_distinct:
  "distinct (map fst rows) \<Longrightarrow> fst ` set rows \<inter> fst ` set acc = {} \<Longrightarrow>
   fold (\<lambda>(k, v) d. dict_set k v d) rows acc = acc @ rows"
proof (induction rows arbitrary: acc)
  case Nil
  then show ?case by simp
next
  case (Cons r rows)
  obtain k v where r: "r = (k, v)" by (cases r)
  have fresh: "k \<notin> fst ` set acc" using Cons.prems(2) r by auto
  have d: "distinct (map fst rows)" and knot: "k \<notin> fst ` set rows"
    using Cons.prems(1) r by auto
  have disj: "fst ` set rows \<inter> fst ` set (acc @ [(k, v)]) = {}"
    using Cons.prems(2) knot by auto
  have "fold (\<lambda>(k, v) d. dict_set k v d) (r # rows) acc =
        fold (\<lambda>(k, v) d. dict_set k v d) rows (acc @ [(k, v)])"
    using r fresh by (simp add: dict_set_fresh)
  also have "\<dots> = (acc @ [(k, v)]) @ rows" using Cons.IH[OF d disj] .
  finally show ?case using r by simp
qed

lemma version_book_distinct: "distinct (map fst rows) \<Longrightarrow> version_book rows = rows"
  using fold_dict_set_distinct[of rows "[]"] by (simp add: version_book_def)

lemma check_versions_mismatch:
  "(k, v) \<in> set kvs \<Longrightarrow> \<not> sublist k ''Gnucash'' \<Longrightarrow> map_of version_supported k \<noteq> Some v \<Longrightarrow>
   isl (check_versions kvs)"
proof (induction kvs)
  case Nil
  then show ?case by simp
next
  case (Cons r kvs)
  obtain k' v' where r: "r = (k', v')" by (cases r)
  show ?case
  proof (cases "(k, v) = (k', v')")
    case True
    then show ?thesis using Cons.prems r by (auto split: option.splits)
  next
    case False
    then have "(k, v) \<in> set kvs" using Cons.prems(1) r by auto
    then have "isl (check_versions kvs)" using Cons.IH Cons.prems by blast
    then show ?thesis using r by (auto split: option.splits)
  qed
qed

lemma sublist_Gnucash: "sublist ''Gnucash'' ''Gnucash''"
  by simp

lemma check_versions_set_gnucash: "check_versions (map (set_gnucash w) kvs) = check_versions kvs"
proof (induction kvs)
  case Nil
  then show ?case by simp
next
  case (Cons r kvs)
  obtain k v where r: "r = (k, v)" by (cases r)
  show ?case
  proof (cases "k = ''Gnucash''")
    case True
    have "set_gnucash w r = (''Gnucash'', w)" using r True by (simp add: set_gnucash_def)
    then show ?thesis using Cons.IH r True sublist_Gnucash by (simp del: sublist_code)
  next
    case False
    then have "set_gnucash w r = r" using r by (simp add: set_gnucash_def)
    then show ?thesis using Cons.IH r by (simp split: option.splits)
  qed
qed

lemma dict_set_set_gnucash:
  "dict_set (fst (set_gnucash w (k, v))) (snd (set_gnucash w (k, v))) (map (set_gnucash w) d) =
   map (set_gnucash w) (dict_set k v d)"
  by (induction d) (auto simp: set_gnucash_def)

lemma fold_dict_set_set_gnucash:
  "fold (\<lambda>(k, v) d. dict_set k v d) (map (set_gnucash w) rows) (map (set_gnucash w) acc) =
   map (set_gnucash w) (fold (\<lambda>(k, v) d. dict_set k v d) rows acc)"
proof (induction rows arbitrary: acc)
  case Nil
  then show ?case by simp
next
  case (Cons r rows)
  obtain k v where r: "r = (k, v)" by (cases r)
  have "(\<lambda>(k, v) d. dict_set k v d) (set_gnucash w r) (map (set_gnucash w) acc) =
        map (set_gnucash w) (dict_set k v acc)"
    using dict_set_set_gnucash[of w k v acc] r by (simp add: case_prod_beta)
  then show ?case using Cons.IH[of "dict_set k v acc"] r by simp
qed

lemma version_book_set_gnucash:
  "version_book (map (set_gnucash w) rows) = map (set_gnucash w) (version_book rows)"
  using fold_dict_set_set_gnucash[of w rows "[]"] by (simp add: version_book_def)

lemma check_version_book_set_gnucash:
  "check_versions (version_book (map (set_gnucash w) rows)) = check_versions (version_book rows)"
  by (simp add: version_book_set_gnucash check_versions_set_gnucash)


lemma open_book_at:
  assumes "uri_conn = Some uri \<or> (uri_conn = None \<and> sqlite_file = Some f \<and> f \<noteq> [] \<and> uri = ''sqlite:///'' @ f)"
    and "world uri = Some db"
  shows "isl (check_versions (version_book (version_rows db))) \<Longrightarrow>
         isl (fst (open_book world stamp sqlite_file uri_conn al ro oil bkp))"
  using assms by (auto simp: open_book_def split: sum.splits)

text \<open>
  Claim C8, as amended. When the rows of \<open>versions\<close> have distinct table names (the
  primary key), a row whose name is no part of the string \<open>Gnucash\<close> and whose
  version is not the supported one makes \<open>open_book\<close> raise. The row named
  \<open>Gnucash\<close> is not checked: whatever version it holds, \<open>open_book\<close> does the same.
\<close>

theorem open_book_checks_versions_except_Gnucash:
  "((uri_conn = Some uri \<or>
       (uri_conn = None \<and> sqlite_file = Some f \<and> f \<noteq> [] \<and> uri = ''sqlite:///'' @ f)) \<longrightarrow>
      world uri = Some db \<longrightarrow> distinct (map fst (version_rows db)) \<longrightarrow>
      (k, v) \<in> set (version_rows db) \<longrightarrow> \<not> sublist k ''Gnucash'' \<longrightarrow>
      map_of version_supported k \<noteq> Some v \<longrightarrow>
      isl (fst (open_book world stamp sqlite_file uri_conn al ro oil bkp))) \<and>
   (world uri = Some db \<longrightarrow>
      open_book (world(uri \<mapsto> db\<lparr>version_rows := map (set_gnucash w) (version_rows db)\<rparr>))
          stamp sqlite_file uri_conn al ro oil bkp =
      open_book world stamp sqlite_file uri_conn al ro oil bkp)"
proof (intro conjI impI)
  assume r: "uri_conn = Some uri \<or>
       (uri_conn = None \<and> sqlite_file = Some f \<and> f \<noteq> [] \<and> uri = ''sqlite:///'' @ f)"
    and w: "world uri = Some db" and d: "distinct (map fst (version_rows db))"
    and m: "(k, v) \<in> set (version_rows db)" "\<not> sublist k ''Gnucash''"
      "map_of version_supported k \<noteq> Some v"
  have "isl (check_versions (version_rows db))" using check_versions_mismatch[OF m] .
  then have "isl (check_versions (version_book (version_rows db)))"
    using version_book_distinct[OF d] by simp
  then show "isl (fst (open_book world stamp sqlite_file uri_conn al ro oil bkp))"
    using open_book_at[where world = world and uri = uri and db = db and f = f
        and uri_conn = uri_conn and sqlite_file = sqlite_file] r w
    by blast
next
  assume w: "world uri = Some db"
  let ?db' = "db\<lparr>version_rows := map (set_gnucash w) (version_rows db)\<rparr>"
  show "open_book (world(uri \<mapsto> ?db')) stamp sqlite_file uri_conn al ro oil bkp =
      open_book world stamp sqlite_file uri_conn al ro oil bkp"
    unfolding open_book_def
    using w
    by (auto simp: check_version_book_set_gnucash split: option.splits sum.splits)
qed


lemma supported_Gnucash: "map_of version_supported ''Gnucash'' = Some 2060400"
  by (simp add: version_supported_def)

lemma supported_splits: "map_of version_supported ''splits'' = Some 4"
  by (simp add: version_supported_def)

lemma supported_books: "map_of version_supported ''books'' = Some 1"
  by (simp add: version_supported_def)

lemma not_sublist_splits: "\<not> sublist ''splits'' ''Gnucash''"
  by code_simp

lemma not_sublist_books: "\<not> sublist ''books'' ''Gnucash''"
  by code_simp

lemma open_other_gnucash:
  "fst (open_book (one_file db_other_gnucash) ''20261103120000'' (Some ''book.gnucash'') None
          True True False True) =
     Inr (adapt_session Session book_EUR True)"
proof -
  have rows: "version_book (version_rows db_other_gnucash) =
      [(''Gnucash'', 2060300), (''books'', 1), (''splits'', 4)]"
    by (simp add: version_book_def db_other_gnucash_def)
  have chk: "check_versions [(''Gnucash'', 2060300), (''books'', 1), (''splits'', 4)] = Inr ()"
    using sublist_Gnucash not_sublist_books not_sublist_splits supported_books supported_splits
    by (simp del: sublist_code)
  have cv: "check_versions (version_book (version_rows db_other_gnucash)) = Inr ()"
    using rows chk by (simp only:)
  have fields: "gnclock_rows db_other_gnucash = []" "book_rows db_other_gnucash = [book_EUR]"
    by (simp_all add: db_other_gnucash_def)
  show ?thesis
    by (simp add: open_book_def one_file_def cv fields query_one_def)
qed

text \<open>
  Claim C8 as stated fails: a book whose row \<open>Gnucash\<close> holds version 2060300, where
  2060400 is supported, is opened without an error.
\<close>

theorem open_book_Gnucash_row_counterexample:
  "(''Gnucash'', 2060300) \<in> set (version_rows db_other_gnucash) \<and>
   map_of version_supported ''Gnucash'' = Some 2060400 \<and>
   fst (open_book (one_file db_other_gnucash) ''20261103120000'' (Some ''book.gnucash'') None
          True True False True) =
     Inr (adapt_session (Session :: unit session) book_EUR True)"
  using open_other_gnucash[where 'a = unit] supported_Gnucash
  by (simp add: db_other_gnucash_def)

theorem open_book_checks_versions_except_Gnucash_witness:
  "isl (fst (open_book (one_file db_old_splits) ''20261103120000'' (Some ''book.gnucash'') None
          True True False True) :: error + unit session) \<and>
   (open_book ((one_file db_old_splits)(''sqlite:///book.gnucash'' \<mapsto>
        db_old_splits\<lparr>version_rows := map (set_gnucash 7) (version_rows db_old_splits)\<rparr>))
      ''20261103120000'' (Some ''book.gnucash'') None True True False True
      :: (error + unit session) \<times> string option) =
    open_book (one_file db_old_splits) ''20261103120000'' (Some ''book.gnucash'') None
      True True False True"
proof -
  have r: "(None :: string option) = Some ''sqlite:///book.gnucash'' \<or>
       ((None :: string option) = None \<and> Some ''book.gnucash'' = Some ''book.gnucash'' \<and>
        ''book.gnucash'' \<noteq> [] \<and> ''sqlite:///book.gnucash'' = ''sqlite:///'' @ ''book.gnucash'')"
    by simp
  have w: "one_file db_old_splits ''sqlite:///book.gnucash'' = Some db_old_splits"
    by (simp add: one_file_def)
  have d: "distinct (map fst (version_rows db_old_splits))"
    by (simp add: db_old_splits_def)
  have m: "(''splits'', 3) \<in> set (version_rows db_old_splits)"
    by (simp add: db_old_splits_def)
  have ne: "map_of version_supported ''splits'' \<noteq> Some 3"
    using supported_splits by simp
  show ?thesis
    using open_book_checks_versions_except_Gnucash[where world = "one_file db_old_splits"
        and uri = "''sqlite:///book.gnucash''" and db = db_old_splits and f = "''book.gnucash''"
        and uri_conn = None and sqlite_file = "Some ''book.gnucash''" and k = "''splits''"
        and v = 3 and w = 7 and stamp = "''20261103120000''" and al = True and ro = True
        and oil = False and bkp = True]
      r w d m ne not_sublist_splits
    by blast
qed

section \<open>Validation of a batch and commit\<close>

lemma set_fold_set_add: "set (fold set_add xs acc) = set xs \<union> set acc"
  by (induction xs arbitrary: acc) (auto simp: set_add_def)

lemma distinct_fold_set_add: "distinct acc \<Longrightarrow> distinct (fold set_add xs acc)"
  by (induction xs arbitrary: acc) (auto simp: set_add_def)

lemma set_discard_None: "set (discard_None xs) = {x. Some x \<in> set xs}"
  by (induction xs rule: discard_None.induct) auto

lemma distinct_discard_None: "distinct xs \<Longrightarrow> distinct (discard_None xs)"
  by (induction xs rule: discard_None.induct) (auto simp: set_discard_None)

lemma set_fold_objects:
  "set (fold (\<lambda>x txs. fold set_add (f x) txs) l acc) = (\<Union>x \<in> set l. set (f x)) \<union> set acc"
  by (induction l arbitrary: acc) (auto simp: set_fold_set_add)

lemma distinct_fold_objects:
  "distinct acc \<Longrightarrow> distinct (fold (\<lambda>x txs. fold set_add (f x) txs) l acc)"
  by (induction l arbitrary: acc) (auto simp: distinct_fold_set_add)

lemma set_fold_changes:
  "set (fold (\<lambda>(change, l) txs. fold (\<lambda>x txs. fold set_add (f x change) txs) l txs) cls acc) =
     (\<Union>(change, l) \<in> set cls. \<Union>x \<in> set l. set (f x change)) \<union> set acc"
proof (induction cls arbitrary: acc)
  case Nil
  then show ?case by simp
next
  case (Cons cl cls)
  obtain change l where cl: "cl = (change, l)" by (cases cl)
  show ?case
    unfolding cl by (simp add: Cons.IH set_fold_objects[of "\<lambda>x. f x change"] Un_assoc Un_commute Un_left_commute)
qed

lemma distinct_fold_changes:
  "distinct acc \<Longrightarrow>
   distinct (fold (\<lambda>(change, l) txs. fold (\<lambda>x txs. fold set_add (f x change) txs) l txs) cls acc)"
proof (induction cls arbitrary: acc)
  case Nil
  then show ?case by simp
next
  case (Cons cl cls)
  obtain change l where cl: "cl = (change, l)" by (cases cl)
  show ?case
    unfolding cl using Cons.prems
    by (simp add: Cons.IH distinct_fold_objects[of _ "\<lambda>x. f x change"])
qed

lemma set_txs_to_validate:
  "set (txs_to_validate h s) =
     {tx. \<exists>change l x. (change, l) \<in> set (staged s) \<and> x \<in> set l \<and>
            Some tx \<in> set (object_to_validate h x change)}"
  unfolding txs_to_validate_def set_discard_None set_fold_changes by auto

lemma distinct_txs_to_validate: "distinct (txs_to_validate h s)"
  unfolding txs_to_validate_def
  by (rule distinct_discard_None) (simp add: distinct_fold_changes)

lemma validate_all_fails: "tx \<in> set txs \<Longrightarrow> isl (v tx) \<Longrightarrow> isl (validate_all v txs)"
  by (induction txs) (auto split: sum.splits)

lemma validate_all_passes:
  "\<forall>tx \<in> set txs. \<not> isl (v tx) \<Longrightarrow> validate_all v txs = Inr (map (\<lambda>tx. projr (v tx)) txs)"
  by (induction txs) (auto split: sum.splits)

lemma validate_all_Inl: "validate_all v txs = Inl e \<Longrightarrow> \<exists>tx \<in> set txs. v tx = Inl e"
  by (induction txs) (auto split: sum.splits)

lemma commit_ok_all_valid:
  assumes io: "\<forall>xs. set (iteration_order h xs) = set xs"
    and ok: "fst (Session_commit_impl h s db) = Inr ()"
    and tx: "tx \<in> set (txs_to_validate h s)"
  shows "\<not> isl (validate_tx h tx)"
proof
  assume bad: "isl (validate_tx h tx)"
  have "tx \<in> set (iteration_order h (txs_to_validate h s))" using io tx by simp
  then have "isl (validate_all (validate_tx h) (iteration_order h (txs_to_validate h s)))"
    using bad by (rule validate_all_fails)
  then have "isl (fst (Session_commit_impl h s db))"
    by (auto simp: Session_commit_impl_def validate_book_def split: sum.splits)
  then show False using ok by simp
qed

text \<open>
  Claim C5. The transactions validated at a commit are those that an object of
  \<open>session.dirty\<close> asks for as dirty, an object of \<open>session.new\<close> as new or an object of
  \<open>session.deleted\<close> as deleted, each once and None left out. Whatever the order in which the
  set is iterated, if one of them fails its validation the commit raises the error of a
  failing transaction, the objects stay staged and the store is as it was, nothing
  being written; if none fails, the batch is handed to the store.
\<close>

theorem validate_book_all_or_nothing:
  "distinct (txs_to_validate h s) \<and>
   set (txs_to_validate h s) =
     {tx. (\<exists>x \<in> set (dirty s). Some tx \<in> set (object_to_validate h x Dirty)) \<or>
          (\<exists>x \<in> set (new s). Some tx \<in> set (object_to_validate h x New)) \<or>
          (\<exists>x \<in> set (deleted s). Some tx \<in> set (object_to_validate h x Deleted))} \<and>
   ((\<forall>xs. set (iteration_order h xs) = set xs) \<longrightarrow>
      ((\<exists>tx \<in> set (txs_to_validate h s). isl (validate_tx h tx)) \<longrightarrow>
         (\<exists>tx \<in> set (txs_to_validate h s). \<exists>e. validate_tx h tx = Inl e \<and>
            Session_commit_impl h s db = (Inl e, s, db))) \<and>
      ((\<forall>tx \<in> set (txs_to_validate h s). \<not> isl (validate_tx h tx)) \<longrightarrow>
         (\<exists>txs. Session_commit_impl h s db =
            (Inr (), s\<lparr>dirty := [], new := [], deleted := [], is_modified := False\<rparr>,
             persist h txs s db))))"
proof (intro conjI impI)
  show "distinct (txs_to_validate h s)" by (rule distinct_txs_to_validate)
next
  show "set (txs_to_validate h s) =
     {tx. (\<exists>x \<in> set (dirty s). Some tx \<in> set (object_to_validate h x Dirty)) \<or>
          (\<exists>x \<in> set (new s). Some tx \<in> set (object_to_validate h x New)) \<or>
          (\<exists>x \<in> set (deleted s). Some tx \<in> set (object_to_validate h x Deleted))}"
    unfolding set_txs_to_validate by (auto simp: staged_def)
next
  assume io: "\<forall>xs. set (iteration_order h xs) = set xs"
    and bad: "\<exists>tx \<in> set (txs_to_validate h s). isl (validate_tx h tx)"
  let ?order = "iteration_order h (txs_to_validate h s)"
  from bad obtain tx where "tx \<in> set ?order" "isl (validate_tx h tx)" using io by auto
  then have "isl (validate_all (validate_tx h) ?order)" by (rule validate_all_fails)
  then obtain e where e: "validate_book h s = Inl e"
    unfolding validate_book_def by (cases "validate_all (validate_tx h) ?order") auto
  then obtain tx' where "tx' \<in> set ?order" "validate_tx h tx' = Inl e"
    unfolding validate_book_def using validate_all_Inl by blast
  moreover have "Session_commit_impl h s db = (Inl e, s, db)"
    using e by (simp add: Session_commit_impl_def)
  ultimately show "\<exists>tx \<in> set (txs_to_validate h s). \<exists>e. validate_tx h tx = Inl e \<and>
            Session_commit_impl h s db = (Inl e, s, db)"
    using io by auto
next
  assume io: "\<forall>xs. set (iteration_order h xs) = set xs"
    and good: "\<forall>tx \<in> set (txs_to_validate h s). \<not> isl (validate_tx h tx)"
  let ?order = "iteration_order h (txs_to_validate h s)"
  have "\<forall>tx \<in> set ?order. \<not> isl (validate_tx h tx)" using good io by auto
  then have "validate_book h s = Inr (map (\<lambda>tx. projr (validate_tx h tx)) ?order)"
    unfolding validate_book_def by (rule validate_all_passes)
  then show "\<exists>txs. Session_commit_impl h s db =
            (Inr (), s\<lparr>dirty := [], new := [], deleted := [], is_modified := False\<rparr>,
             persist h txs s db)"
    by (auto simp: Session_commit_impl_def)
qed

section \<open>Validation of a transaction\<close>

lemma check_split_keeps:
  "check_split cur sp = Inr sp' \<Longrightarrow> sp_value sp' = sp_value sp \<and> sp_account sp' = sp_account sp"
  by (auto simp: check_split_def split: if_splits option.splits)

lemma check_splits_values:
  "check_splits cur sps = Inr sps' \<Longrightarrow> map sp_value sps' = map sp_value sps"
proof (induction sps arbitrary: sps')
  case Nil
  then show ?case by simp
next
  case (Cons sp sps)
  then show ?case
    by (auto split: sum.splits dest: check_split_keeps)
qed

lemma check_splits_value_sum:
  "check_splits cur sps = Inr sps' \<Longrightarrow> value_sum sps' = value_sum sps"
  using check_splits_values[of cur sps sps'] by (simp add: value_sum_def)

lemma check_splits_fails:
  "sp \<in> set sps \<Longrightarrow> isl (check_split cur sp) \<Longrightarrow> isl (check_splits cur sps)"
  by (induction sps) (auto split: sum.splits)

lemma validate_passes_steps:
  assumes "validate tr ut tx = Inr tx'"
  shows "namespace (tx_currency tx) = ''CURRENCY'' \<and>
         (\<exists>sps. check_splits (tx_currency tx) (tx_splits tx) = Inr sps \<and> value_sum sps = 0)"
  using assms
  by (auto simp: validate_def Let_def split: if_splits sum.splits list.splits)

lemma validate_result_value_sum:
  assumes "validate tr ut tx = Inr tx'"
  shows "value_sum (tx_splits tx') = 0"
  using assms
  by (auto simp: validate_def Let_def split: if_splits sum.splits list.splits)

lemma validate_step3:
  assumes "namespace (tx_currency tx) = ''CURRENCY''"
    and "check_splits (tx_currency tx) (tx_splits tx) = Inr sps"
    and "value_sum (tx_splits tx) \<noteq> 0"
  shows "validate tr ut tx = Inl (ImbalancedTransaction (value_sum (tx_splits tx)))"
  using assms check_splits_value_sum[OF assms(2)] by (simp add: validate_def)

lemma validate_no_trading:
  assumes "namespace (tx_currency tx) = ''CURRENCY''"
    and "check_splits (tx_currency tx) (tx_splits tx) = Inr sps"
    and "value_sum (tx_splits tx) = 0"
  shows "validate tr False tx = Inr (tx\<lparr>tx_splits := sps\<rparr>)"
  using assms check_splits_value_sum[OF assms(2)] by (simp add: validate_def)

text \<open>
  Claim C1. A validation that succeeds implies that the values of the splits sum to
  zero, before and after it; a sum other than zero makes the validation fail, with the
  imbalance error that carries the sum when the currency and the splits pass the steps
  before; and when they pass and the sum is zero, the validation (without trading
  accounts) succeeds. A commit that succeeds has validated every transaction of its
  batch, so each of them has values that sum to zero.
\<close>

theorem validate_value_balance:
  "(validate tr ut tx = Inr tx' \<longrightarrow>
      value_sum (tx_splits tx) = 0 \<and> value_sum (tx_splits tx') = 0) \<and>
   (value_sum (tx_splits tx) \<noteq> 0 \<longrightarrow> isl (validate tr ut tx)) \<and>
   (namespace (tx_currency tx) = ''CURRENCY'' \<longrightarrow>
      check_splits (tx_currency tx) (tx_splits tx) = Inr sps \<longrightarrow>
      value_sum (tx_splits tx) \<noteq> 0 \<longrightarrow>
      validate tr ut tx = Inl (ImbalancedTransaction (value_sum (tx_splits tx)))) \<and>
   (namespace (tx_currency tx) = ''CURRENCY'' \<longrightarrow>
      check_splits (tx_currency tx) (tx_splits tx) = Inr sps \<longrightarrow>
      value_sum (tx_splits tx) = 0 \<longrightarrow>
      validate tr False tx = Inr (tx\<lparr>tx_splits := sps\<rparr>)) \<and>
   ((\<forall>xs. set (iteration_order h xs) = set xs) \<longrightarrow> validate_tx h = validate tr ut \<longrightarrow>
      fst (Session_commit_impl h s db) = Inr () \<longrightarrow>
      (\<forall>t \<in> set (txs_to_validate h s). value_sum (tx_splits t) = 0))"
proof (intro conjI impI ballI)
  assume ok: "validate tr ut tx = Inr tx'"
  obtain sps where "check_splits (tx_currency tx) (tx_splits tx) = Inr sps" "value_sum sps = 0"
    using validate_passes_steps[OF ok] by blast
  then show "value_sum (tx_splits tx) = 0" using check_splits_value_sum by metis
next
  assume ok: "validate tr ut tx = Inr tx'"
  show "value_sum (tx_splits tx') = 0" using validate_result_value_sum[OF ok] .
next
  assume ne: "value_sum (tx_splits tx) \<noteq> 0"
  show "isl (validate tr ut tx)"
  proof (cases "validate tr ut tx")
    case (Inl e)
    then show ?thesis by simp
  next
    case (Inr t)
    obtain sps where "check_splits (tx_currency tx) (tx_splits tx) = Inr sps" "value_sum sps = 0"
      using validate_passes_steps[OF Inr] by blast
    then have "value_sum (tx_splits tx) = 0" using check_splits_value_sum by metis
    then show ?thesis using ne by simp
  qed
next
  assume "namespace (tx_currency tx) = ''CURRENCY''"
    "check_splits (tx_currency tx) (tx_splits tx) = Inr sps" "value_sum (tx_splits tx) \<noteq> 0"
  then show "validate tr ut tx = Inl (ImbalancedTransaction (value_sum (tx_splits tx)))"
    by (rule validate_step3)
next
  assume "namespace (tx_currency tx) = ''CURRENCY''"
    "check_splits (tx_currency tx) (tx_splits tx) = Inr sps" "value_sum (tx_splits tx) = 0"
  then show "validate tr False tx = Inr (tx\<lparr>tx_splits := sps\<rparr>)"
    by (rule validate_no_trading)
next
  fix t
  assume io: "\<forall>xs. set (iteration_order h xs) = set xs"
    and v: "validate_tx h = validate tr ut"
    and ok: "fst (Session_commit_impl h s db) = Inr ()"
    and t: "t \<in> set (txs_to_validate h s)"
  have "\<not> isl (validate tr ut t)" using commit_ok_all_valid[OF io ok t] v by simp
  then obtain t' where t': "validate tr ut t = Inr t'" by (cases "validate tr ut t") auto
  obtain sps' where "check_splits (tx_currency t) (tx_splits t) = Inr sps'" "value_sum sps' = 0"
    using validate_passes_steps[OF t'] by blast
  then show "value_sum (tx_splits t) = 0" using check_splits_value_sum by metis
qed

lemma EUR_is_currency: "namespace EUR = ''CURRENCY''"
  by (simp add: EUR_def)

lemma same_EUR_EUR: "same_commodity EUR EUR"
  by (simp add: same_commodity_def)

lemma not_same_ACME_EUR: "\<not> same_commodity ACME EUR"
  by (simp add: same_commodity_def ACME_def EUR_def)

lemma split_commodity_simps:
  "split_commodity \<lparr>sp_account = asset, sp_value = v, sp_quantity = q, sp_memo = m\<rparr> = EUR"
  "split_commodity \<lparr>sp_account = expenses, sp_value = v, sp_quantity = q, sp_memo = m\<rparr> = EUR"
  "split_commodity \<lparr>sp_account = broker, sp_value = v, sp_quantity = q, sp_memo = m\<rparr> = ACME"
  by (simp_all add: split_commodity_def asset_def expenses_def broker_def)

lemma check_imbalanced:
  "check_splits (tx_currency tx_imbalanced) (tx_splits tx_imbalanced) =
     Inr [\<lparr>sp_account = asset, sp_value = 100, sp_quantity = Some 100, sp_memo = []\<rparr>,
          \<lparr>sp_account = expenses, sp_value = - 10, sp_quantity = Some (- 10), sp_memo = []\<rparr>]"
  by (simp add: tx_imbalanced_def check_split_def split_commodity_simps same_EUR_EUR)

lemma check_balanced:
  "check_splits (tx_currency tx_balanced) (tx_splits tx_balanced) =
     Inr [\<lparr>sp_account = asset, sp_value = 100, sp_quantity = Some 100, sp_memo = []\<rparr>,
          \<lparr>sp_account = expenses, sp_value = - 10, sp_quantity = Some (- 10), sp_memo = []\<rparr>,
          \<lparr>sp_account = expenses, sp_value = - 90, sp_quantity = Some (- 90), sp_memo = []\<rparr>]"
  by (simp add: tx_balanced_def check_split_def split_commodity_simps same_EUR_EUR)

lemma sum_imbalanced: "value_sum (tx_splits tx_imbalanced) = 90"
  by (simp add: tx_imbalanced_def value_sum_def)

lemma sum_balanced: "value_sum (tx_splits tx_balanced) = 0"
  by (simp add: tx_balanced_def value_sum_def)

lemma validate_imbalanced:
  "validate trading_zero False tx_imbalanced = Inl (ImbalancedTransaction 90)"
proof -
  have c: "namespace (tx_currency tx_imbalanced) = ''CURRENCY''"
    by (simp add: tx_imbalanced_def EUR_is_currency)
  have ne: "value_sum (tx_splits tx_imbalanced) \<noteq> 0" using sum_imbalanced by simp
  show ?thesis using validate_step3[OF c check_imbalanced ne] sum_imbalanced by simp
qed

lemma validate_balanced: "\<not> isl (validate trading_zero False tx_balanced)"
proof -
  have c: "namespace (tx_currency tx_balanced) = ''CURRENCY''"
    by (simp add: tx_balanced_def EUR_is_currency)
  show ?thesis using validate_no_trading[OF c check_balanced sum_balanced] by simp
qed

lemma txs_differ: "tx_imbalanced \<noteq> tx_balanced"
  by (simp add: tx_imbalanced_def tx_balanced_def)

lemma batch_ok_txs: "txs_to_validate batch_hooks batch_ok = [tx_balanced]"
  by (simp add: txs_to_validate_def staged_def batch_ok_def batch_hooks_def session_add_def
        Session_def set_add_def)

lemma commit_batch_ok: "fst (Session_commit_impl batch_hooks batch_ok []) = Inr ()"
proof -
  have v: "validate_tx batch_hooks = validate trading_zero False"
    by (simp add: batch_hooks_def)
  have o: "iteration_order batch_hooks [tx_balanced] = [tx_balanced]"
    by (simp add: batch_hooks_def)
  have "\<forall>tx \<in> set [tx_balanced]. \<not> isl (validate_tx batch_hooks tx)"
    using v validate_balanced by simp
  then have "validate_all (validate_tx batch_hooks) [tx_balanced] =
      Inr (map (\<lambda>tx. projr (validate_tx batch_hooks tx)) [tx_balanced])"
    by (rule validate_all_passes)
  then show ?thesis
    by (simp add: Session_commit_impl_def validate_book_def batch_ok_txs o)
qed

theorem validate_value_balance_witness:
  "validate trading_zero False tx_imbalanced = Inl (ImbalancedTransaction 90) \<and>
   validate trading_zero False tx_balanced =
     Inr (tx_balanced\<lparr>tx_splits :=
       [\<lparr>sp_account = asset, sp_value = 100, sp_quantity = Some 100, sp_memo = []\<rparr>,
        \<lparr>sp_account = expenses, sp_value = - 10, sp_quantity = Some (- 10), sp_memo = []\<rparr>,
        \<lparr>sp_account = expenses, sp_value = - 90, sp_quantity = Some (- 90), sp_memo = []\<rparr>]\<rparr>) \<and>
   fst (Session_commit_impl batch_hooks batch_ok []) = Inr () \<and>
   txs_to_validate batch_hooks batch_ok = [tx_balanced] \<and>
   value_sum (tx_splits tx_balanced) = 0"
proof -
  have c1: "namespace (tx_currency tx_imbalanced) = ''CURRENCY''"
    by (simp add: tx_imbalanced_def EUR_is_currency)
  have c2: "namespace (tx_currency tx_balanced) = ''CURRENCY''"
    by (simp add: tx_balanced_def EUR_is_currency)
  have ne: "value_sum (tx_splits tx_imbalanced) \<noteq> 0" using sum_imbalanced by simp
  have io: "\<forall>xs. set (iteration_order batch_hooks xs) = set xs"
    by (simp add: batch_hooks_def)
  have v: "validate_tx batch_hooks = validate trading_zero False"
    by (simp add: batch_hooks_def)
  note at_imbalanced = validate_value_balance[where tx = tx_imbalanced and tr = trading_zero
      and ut = False and h = batch_hooks and s = batch_ok and db = "[]"
      and sps = "[\<lparr>sp_account = asset, sp_value = 100, sp_quantity = Some 100, sp_memo = []\<rparr>,
          \<lparr>sp_account = expenses, sp_value = - 10, sp_quantity = Some (- 10), sp_memo = []\<rparr>]"]
  note at_balanced = validate_value_balance[where tx = tx_balanced and tr = trading_zero
      and ut = False and h = batch_hooks and s = batch_ok and db = "[]"
      and sps = "[\<lparr>sp_account = asset, sp_value = 100, sp_quantity = Some 100, sp_memo = []\<rparr>,
          \<lparr>sp_account = expenses, sp_value = - 10, sp_quantity = Some (- 10), sp_memo = []\<rparr>,
          \<lparr>sp_account = expenses, sp_value = - 90, sp_quantity = Some (- 90), sp_memo = []\<rparr>]"]
  have 1: "validate trading_zero False tx_imbalanced =
      Inl (ImbalancedTransaction (value_sum (tx_splits tx_imbalanced)))"
    using at_imbalanced c1 check_imbalanced ne by blast
  have "\<forall>t \<in> set (txs_to_validate batch_hooks batch_ok). value_sum (tx_splits t) = 0"
    using at_balanced io v commit_batch_ok by blast
  then have 3: "value_sum (tx_splits tx_balanced) = 0" using batch_ok_txs by simp
  have 2: "validate trading_zero False tx_balanced =
     Inr (tx_balanced\<lparr>tx_splits :=
       [\<lparr>sp_account = asset, sp_value = 100, sp_quantity = Some 100, sp_memo = []\<rparr>,
        \<lparr>sp_account = expenses, sp_value = - 10, sp_quantity = Some (- 10), sp_memo = []\<rparr>,
        \<lparr>sp_account = expenses, sp_value = - 90, sp_quantity = Some (- 90), sp_memo = []\<rparr>]\<rparr>)"
    using at_balanced c2 check_balanced 3 by blast
  show ?thesis using 1 2 3 sum_imbalanced commit_batch_ok batch_ok_txs by simp
qed

text \<open>
  Claim C2. For a split in the currency of the transaction, an absent quantity is set
  to the value and a quantity other than the value is rejected, so that an accepted
  split has its quantity equal to its value. For a split in another commodity, an
  absent quantity is an error, a quantity whose sign is not that of a non-zero value
  is an error, and the split is accepted as it is otherwise. A split that fails makes
  the validation of its transaction fail.
\<close>

theorem check_split_quantity_rules:
  "(same_commodity (split_commodity sp) cur \<longrightarrow> sp_quantity sp = None \<longrightarrow>
      check_split cur sp = Inr (sp\<lparr>sp_quantity := Some (sp_value sp)\<rparr>)) \<and>
   (same_commodity (split_commodity sp) cur \<longrightarrow> sp_quantity sp = Some q \<longrightarrow>
      q \<noteq> sp_value sp \<longrightarrow> check_split cur sp = Inl (QuantityValueMismatch Differs)) \<and>
   (same_commodity (split_commodity sp) cur \<longrightarrow> check_split cur sp = Inr sp' \<longrightarrow>
      sp_quantity sp' = Some (sp_value sp')) \<and>
   (\<not> same_commodity (split_commodity sp) cur \<longrightarrow> sp_quantity sp = None \<longrightarrow>
      check_split cur sp = Inl (QuantityValueMismatch Missing)) \<and>
   (\<not> same_commodity (split_commodity sp) cur \<longrightarrow> sp_quantity sp = Some q \<longrightarrow>
      sp_value sp \<noteq> 0 \<longrightarrow> sgn q \<noteq> sgn (sp_value sp) \<longrightarrow>
      check_split cur sp = Inl QuantitySignMismatch) \<and>
   (\<not> same_commodity (split_commodity sp) cur \<longrightarrow> sp_quantity sp = Some q \<longrightarrow>
      (sp_value sp = 0 \<or> sgn q = sgn (sp_value sp)) \<longrightarrow> check_split cur sp = Inr sp) \<and>
   (sp \<in> set (tx_splits tx) \<longrightarrow> isl (check_split (tx_currency tx) sp) \<longrightarrow>
      isl (validate tr ut tx))"
proof (intro conjI impI)
  assume m: "sp \<in> set (tx_splits tx)" and f: "isl (check_split (tx_currency tx) sp)"
  have "isl (check_splits (tx_currency tx) (tx_splits tx))"
    using check_splits_fails[OF m f] .
  then show "isl (validate tr ut tx)"
    by (auto simp: validate_def split: sum.splits)
qed (auto simp: check_split_def split: option.splits if_splits)


theorem check_split_quantity_rules_witness:
  "check_split EUR \<lparr>sp_account = asset, sp_value = 100, sp_quantity = None, sp_memo = []\<rparr> =
     Inr \<lparr>sp_account = asset, sp_value = 100, sp_quantity = Some 100, sp_memo = []\<rparr> \<and>
   check_split EUR \<lparr>sp_account = asset, sp_value = 100, sp_quantity = Some 50, sp_memo = []\<rparr> =
     Inl (QuantityValueMismatch Differs) \<and>
   check_split EUR \<lparr>sp_account = broker, sp_value = - 90, sp_quantity = None, sp_memo = []\<rparr> =
     Inl (QuantityValueMismatch Missing) \<and>
   check_split EUR \<lparr>sp_account = broker, sp_value = - 90, sp_quantity = Some 15, sp_memo = []\<rparr> =
     Inl QuantitySignMismatch \<and>
   check_split EUR \<lparr>sp_account = broker, sp_value = - 90, sp_quantity = Some (- 15), sp_memo = []\<rparr> =
     Inr \<lparr>sp_account = broker, sp_value = - 90, sp_quantity = Some (- 15), sp_memo = []\<rparr>"
proof -
  let ?a = "\<lambda>q. \<lparr>sp_account = asset, sp_value = 100, sp_quantity = q, sp_memo = []\<rparr>"
  let ?b = "\<lambda>q. \<lparr>sp_account = broker, sp_value = - 90, sp_quantity = q, sp_memo = []\<rparr>"
  have sa: "same_commodity (split_commodity (?a q)) EUR" for q
    by (simp add: split_commodity_simps same_EUR_EUR)
  have sb: "\<not> same_commodity (split_commodity (?b q)) EUR" for q
    by (simp add: split_commodity_simps not_same_ACME_EUR)
  have 1: "check_split EUR (?a None) = Inr ((?a None)\<lparr>sp_quantity := Some (sp_value (?a None))\<rparr>)"
    using check_split_quantity_rules[where sp = "?a None" and cur = EUR] sa by simp
  have 2: "check_split EUR (?a (Some 50)) = Inl (QuantityValueMismatch Differs)"
    using check_split_quantity_rules[where sp = "?a (Some 50)" and cur = EUR and q = 50] sa
    by simp
  have 3: "check_split EUR (?b None) = Inl (QuantityValueMismatch Missing)"
    using check_split_quantity_rules[where sp = "?b None" and cur = EUR] sb by simp
  have 4: "check_split EUR (?b (Some 15)) = Inl QuantitySignMismatch"
    using check_split_quantity_rules[where sp = "?b (Some 15)" and cur = EUR and q = 15] sb
    by simp
  have 5: "check_split EUR (?b (Some (- 15))) = Inr (?b (Some (- 15)))"
    using check_split_quantity_rules[where sp = "?b (Some (- 15))" and cur = EUR and q = "- 15"] sb
    by simp
  show ?thesis using 1 2 3 4 5 by simp
qed

text \<open>
  Claim C4. A transaction whose currency is not of namespace CURRENCY is rejected with
  the invalid-currency error, whatever its splits and with or without trading accounts.
\<close>

theorem validate_rejects_non_currency:
  "namespace (tx_currency tx) \<noteq> ''CURRENCY'' \<longrightarrow>
     validate tr ut tx = Inl InvalidTransactionCurrency"
  by (simp add: validate_def)

theorem validate_rejects_non_currency_witness:
  "value_sum (tx_splits tx_in_shares) = 0 \<and>
   validate trading_zero False tx_in_shares = Inl InvalidTransactionCurrency \<and>
   validate trading_zero True tx_in_shares = Inl InvalidTransactionCurrency"
proof -
  have ns: "namespace (tx_currency tx_in_shares) \<noteq> ''CURRENCY''"
    by (simp add: tx_in_shares_def ACME_def)
  have v: "value_sum (tx_splits tx_in_shares) = 0"
    by (simp add: tx_in_shares_def value_sum_def)
  show ?thesis
    using validate_rejects_non_currency[where tx = tx_in_shares and tr = trading_zero] ns v
    by blast
qed











lemma same_ACME_ACME: "same_commodity ACME ACME"
  by (simp add: same_commodity_def)

lemma not_same_EUR_ACME: "\<not> same_commodity EUR ACME"
  by (simp add: same_commodity_def ACME_def EUR_def)




lemma trading_split_commodity:
  "split_commodity \<lparr>sp_account = trading_account trading_zero c, sp_value = v, sp_quantity = q,
     sp_memo = m\<rparr> = c"
  by (simp add: split_commodity_def trading_zero_def)

lemma purchase_netted:
  "quantity_sum ACME
     [\<lparr>sp_account = asset, sp_value = 100, sp_quantity = Some 100, sp_memo = []\<rparr>,
      \<lparr>sp_account = broker, sp_value = - 100, sp_quantity = Some (- 15), sp_memo = []\<rparr>,
      \<lparr>sp_account = trading_account trading_zero ACME, sp_value = 0, sp_quantity = Some 15,
       sp_memo = []\<rparr>] = 0"
  by (simp add: quantity_sum_def quantity_of_def split_commodity_simps trading_split_commodity
        same_ACME_ACME not_same_EUR_ACME)



section \<open>A batch and a read-only session, on concrete inputs\<close>

lemma batch_dirty_txs: "txs_to_validate batch_hooks batch_dirty = [tx_imbalanced, tx_balanced]"
  using txs_differ
  by (simp add: txs_to_validate_def staged_def batch_dirty_def batch_hooks_def Session_def
        set_add_def)

lemma batch_deleted_txs:
  "txs_to_validate batch_hooks batch_deleted = [tx_balanced, tx_imbalanced]"
  using txs_differ
  by (simp add: txs_to_validate_def staged_def batch_deleted_def batch_hooks_def Session_def
        set_add_def)

theorem validate_book_all_or_nothing_witness:
  "(\<forall>xs. set (iteration_order batch_hooks xs) = set xs) \<and>
   tx_imbalanced \<in> set (dirty batch_dirty) \<and> tx_imbalanced \<in> set (deleted batch_deleted) \<and>
   txs_to_validate batch_hooks batch_dirty = [tx_imbalanced, tx_balanced] \<and>
   txs_to_validate batch_hooks batch_deleted = [tx_balanced, tx_imbalanced] \<and>
   \<not> isl (validate_tx batch_hooks tx_balanced) \<and>
   Session_commit_impl batch_hooks batch_dirty [] =
     (Inl (ImbalancedTransaction 90), batch_dirty, []) \<and>
   Session_commit_impl batch_hooks batch_deleted [] =
     (Inl (ImbalancedTransaction 90), batch_deleted, [])"
proof -
  have io: "\<forall>xs. set (iteration_order batch_hooks xs) = set xs"
    by (simp add: batch_hooks_def)
  have v: "validate_tx batch_hooks = validate trading_zero False"
    by (simp add: batch_hooks_def)
  have asks: "Some tx_imbalanced \<in> set (object_to_validate batch_hooks tx_imbalanced change)"
    for change
    by (simp add: batch_hooks_def)
  have d1: "tx_imbalanced \<in> set (dirty batch_dirty)" by (simp add: batch_dirty_def)
  have d2: "tx_imbalanced \<in> set (deleted batch_deleted)" by (simp add: batch_deleted_def)
  note at_dirty = validate_book_all_or_nothing[where h = batch_hooks and s = batch_dirty
      and db = "[]"]
  note at_deleted = validate_book_all_or_nothing[where h = batch_hooks and s = batch_deleted
      and db = "[]"]
  have "set (txs_to_validate batch_hooks batch_dirty) =
     {tx. (\<exists>x \<in> set (dirty batch_dirty). Some tx \<in> set (object_to_validate batch_hooks x Dirty)) \<or>
          (\<exists>x \<in> set (new batch_dirty). Some tx \<in> set (object_to_validate batch_hooks x New)) \<or>
          (\<exists>x \<in> set (deleted batch_dirty).
              Some tx \<in> set (object_to_validate batch_hooks x Deleted))}"
    using at_dirty by blast
  then have m1: "tx_imbalanced \<in> set (txs_to_validate batch_hooks batch_dirty)"
    using d1 asks by blast
  have "set (txs_to_validate batch_hooks batch_deleted) =
     {tx. (\<exists>x \<in> set (dirty batch_deleted).
              Some tx \<in> set (object_to_validate batch_hooks x Dirty)) \<or>
          (\<exists>x \<in> set (new batch_deleted). Some tx \<in> set (object_to_validate batch_hooks x New)) \<or>
          (\<exists>x \<in> set (deleted batch_deleted).
              Some tx \<in> set (object_to_validate batch_hooks x Deleted))}"
    using at_deleted by blast
  then have m2: "tx_imbalanced \<in> set (txs_to_validate batch_hooks batch_deleted)"
    using d2 asks by blast
  have fails: "isl (validate_tx batch_hooks tx_imbalanced)"
    using v validate_imbalanced by simp
  obtain tx e where tx: "tx \<in> set (txs_to_validate batch_hooks batch_dirty)"
    and e: "validate_tx batch_hooks tx = Inl e"
    and r: "Session_commit_impl batch_hooks batch_dirty [] = (Inl e, batch_dirty, [])"
    using at_dirty io m1 fails by blast
  have "tx = tx_imbalanced"
    using tx e batch_dirty_txs v validate_balanced by auto
  then have "e = ImbalancedTransaction 90" using e v validate_imbalanced by simp
  then have r1: "Session_commit_impl batch_hooks batch_dirty [] =
     (Inl (ImbalancedTransaction 90), batch_dirty, [])"
    using r by simp
  obtain tx' e' where tx': "tx' \<in> set (txs_to_validate batch_hooks batch_deleted)"
    and e': "validate_tx batch_hooks tx' = Inl e'"
    and r': "Session_commit_impl batch_hooks batch_deleted [] = (Inl e', batch_deleted, [])"
    using at_deleted io m2 fails by blast
  have "tx' = tx_imbalanced"
    using tx' e' batch_deleted_txs v validate_balanced by auto
  then have "e' = ImbalancedTransaction 90" using e' v validate_imbalanced by simp
  then have r2: "Session_commit_impl batch_hooks batch_deleted [] =
     (Inl (ImbalancedTransaction 90), batch_deleted, [])"
    using r' by simp
  have ok: "\<not> isl (validate_tx batch_hooks tx_balanced)" using v validate_balanced by simp
  show ?thesis
    using io d1 d2 batch_dirty_txs batch_deleted_txs ok r1 r2 by (intro conjI)
qed

lemma fold_session_add:
  "commit (fold session_add xs s) = commit s \<and> new (fold session_add xs s) = new s @ xs"
  by (induction xs arbitrary: s) (auto simp: session_add_def)

lemma readonly_commit_raises:
  "commit s = readonly_commit \<Longrightarrow>
   session_commit h (fold session_add xs s) db =
     (Inl (GnucashException ''You cannot change the DB, it is locked !''),
      fold session_add xs s, db)"
  using fold_session_add[of xs s] by (simp add: session_commit_def)

lemma open_book_session:
  "fst (open_book world stamp sqlite_file uri_conn al ro oil bkp) = Inr s' \<Longrightarrow>
   \<exists>b. s' = adapt_session Session b ro"
  by (auto simp: open_book_def split: option.splits sum.splits if_splits)

text \<open>
  Claim C6. In a session adapted as read-only, and so in the session of a book opened
  read-only, a commit raises whatever has been staged, and leaves the session and the
  store as they are; staging objects is not refused.
\<close>

theorem readonly_session_refuses_commit:
  "(\<forall>xs. session_commit h (fold session_add xs (adapt_session s b True)) db =
           (Inl (GnucashException ''You cannot change the DB, it is locked !''),
            fold session_add xs (adapt_session s b True), db) \<and>
         new (fold session_add xs (adapt_session s b True)) = new s @ xs) \<and>
   (fst (open_book world stamp sqlite_file uri_conn al True oil bkp) = Inr s' \<longrightarrow>
      (\<forall>xs. session_commit h (fold session_add xs s') db =
           (Inl (GnucashException ''You cannot change the DB, it is locked !''),
            fold session_add xs s', db) \<and>
         new (fold session_add xs s') = xs))"
proof (intro conjI impI allI)
  fix xs
  have c: "commit (adapt_session s b True) = readonly_commit" by (simp add: adapt_session_def)
  show "session_commit h (fold session_add xs (adapt_session s b True)) db =
           (Inl (GnucashException ''You cannot change the DB, it is locked !''),
            fold session_add xs (adapt_session s b True), db)"
    using readonly_commit_raises[OF c] .
  show "new (fold session_add xs (adapt_session s b True)) = new s @ xs"
    using fold_session_add[of xs "adapt_session s b True"] by (simp add: adapt_session_def)
next
  fix xs
  assume o: "fst (open_book world stamp sqlite_file uri_conn al True oil bkp) = Inr s'"
  then obtain b' where s': "s' = adapt_session Session b' True"
    using open_book_session by blast
  have c: "commit s' = readonly_commit" using s' by (simp add: adapt_session_def)
  show "session_commit h (fold session_add xs s') db =
           (Inl (GnucashException ''You cannot change the DB, it is locked !''),
            fold session_add xs s', db)"
    using readonly_commit_raises[OF c] .
  show "new (fold session_add xs s') = xs"
    using fold_session_add[of xs s'] s' by (simp add: adapt_session_def Session_def)
qed

theorem readonly_session_refuses_commit_witness:
  "fst (open_book (one_file db_other_gnucash) ''20261103120000'' (Some ''book.gnucash'') None
          True True False True) =
     Inr (adapt_session (Session :: transaction session) book_EUR True) \<and>
   new (fold session_add [tx_balanced] (adapt_session Session book_EUR True)) = [tx_balanced] \<and>
   session_commit batch_hooks (fold session_add [tx_balanced] (adapt_session Session book_EUR True))
       [] =
     (Inl (GnucashException ''You cannot change the DB, it is locked !''),
      fold session_add [tx_balanced] (adapt_session Session book_EUR True), [])"
proof -
  have o: "fst (open_book (one_file db_other_gnucash) ''20261103120000'' (Some ''book.gnucash'')
          None True True False True) =
     Inr (adapt_session (Session :: transaction session) book_EUR True)"
    by (rule open_other_gnucash)
  have "\<forall>xs. session_commit batch_hooks
           (fold session_add xs (adapt_session Session book_EUR True)) [] =
           (Inl (GnucashException ''You cannot change the DB, it is locked !''),
            fold session_add xs (adapt_session Session book_EUR True), []) \<and>
         new (fold session_add xs (adapt_session Session book_EUR True)) = xs"
    using readonly_session_refuses_commit[where world = "one_file db_other_gnucash"
      and stamp = "''20261103120000''" and sqlite_file = "Some ''book.gnucash''"
      and uri_conn = None and al = True and oil = False and bkp = True
      and s' = "adapt_session Session book_EUR True" and h = batch_hooks and db = "[]"
      and s = Session and b = book_EUR] o
    by (rule conjunct2[THEN mp])
  then have k: "session_commit batch_hooks
           (fold session_add [tx_balanced] (adapt_session Session book_EUR True)) [] =
           (Inl (GnucashException ''You cannot change the DB, it is locked !''),
            fold session_add [tx_balanced] (adapt_session Session book_EUR True), []) \<and>
         new (fold session_add [tx_balanced] (adapt_session Session book_EUR True)) =
           [tx_balanced]"
    by (rule spec)
  show ?thesis by (rule conjI[OF o conjI[OF conjunct2[OF k] conjunct1[OF k]]])
qed

end
